theory Spec2Isabelle
  imports Complex_Main "HOL-Library.Word"
begin

section \<open>The risk scorer of app/fallback.py\<close>

text \<open>
  A shallow embedding of class \<open>SmartAccidentPredictor\<close>. Conventions:
  \<^item> Python floats are modelled as exact reals; \<open>round(x, n)\<close> is the decimal rounding
    to \<open>n\<close> places, ties to even. Python ints are unbounded: where the code multiplies an
    int by a float the int is converted first, and the conversion raises \<open>OverflowError\<close>
    outside the range of a double.
  \<^item> The \<open>conditions\<close> dict is a record with one optional field per key the code reads:
    \<open>None\<close> is an absent key, so every \<open>conditions.get(key, default)\<close> keeps its own
    default. Categorical values are strings, numeric values are Python ints,
    \<open>is_weekend\<close> is a bool.
  \<^item> Strings are byte strings: the emoji that open the recommendation texts are written as
    their UTF-8 bytes; locations are lower-cased on the ASCII letters.
  \<^item> An exception raised inside the \<open>try\<close> block is a value \<open>Inl e\<close>; the
    \<open>except Exception\<close> handler turns every one of them into the failure result.
  \<^item> The standard library (\<open>hashlib.md5\<close>, the generator behind \<open>random\<close>,
    \<open>datetime.now\<close>) is a parameter, the record \<open>runtime\<close>.
  \<^item> A method name loses its leading underscore.
\<close>

subsection \<open>Data\<close>

datatype error = KeyError string | ZeroDivisionError | OverflowError

record conditions =
  vehicle_type :: "string option"
  driver_age :: "int option"
  experience :: "int option"
  license_valid :: "string option"
  seatbelt :: "string option"
  weather :: "string option"
  road_surface :: "string option"
  visibility :: "string option"
  light_condition :: "string option"
  road_type :: "string option"
  road_design :: "string option"
  traffic_volume :: "string option"
  speed_limit :: "int option"
  current_speed :: "int option"
  time_of_day :: "string option"
  is_weekend :: "bool option"
  area_type :: "string option"
  overtaking :: "string option"
  alcohol :: "string option"
  phone_usage :: "string option"
  accident_history :: "int option"

record probabilities =
  low :: real
  medium :: real
  high :: real

record model_info =
  model_type :: string
  accuracy :: string
  features_analyzed :: nat

record assessment =
  result_location :: string
  timestamp :: string
  predicted_severity :: string
  severity_code :: int
  confidence :: real
  risk_score :: real
  probs :: probabilities
  color :: string
  recommendations :: "string list"
  risk_factors :: "string list"
  info :: model_info

text \<open>
  The dict the method returns: \<open>Success a\<close> has \<open>'success': True\<close> and the keys of
  \<open>a\<close>; \<open>Failure msg l\<close> is \<open>{'success': False, 'error': msg, 'location': l}\<close>.
\<close>

datatype result = Success assessment | Failure string string

record runtime =
  md5_hex8 :: "string \<Rightarrow> 32 word"
  mt_draw :: "32 word \<Rightarrow> nat \<Rightarrow> nat"
  now_isoformat :: string

text \<open>
  \<open>md5_hex8 rt s\<close> is \<open>int(hashlib.md5(s.encode()).hexdigest()[:8], 16)\<close>;
  \<open>mt_draw rt seed k\<close> is the integer whose low 53 bits make the \<open>k\<close>-th value of
  \<open>random.random()\<close> after \<open>random.seed(seed)\<close>; \<open>now_isoformat rt\<close> is
  \<open>datetime.now().isoformat()\<close>.
\<close>

subsection \<open>Dictionaries and strings\<close>

definition cond_get :: "'a option \<Rightarrow> 'a \<Rightarrow> 'a" where
  "cond_get field dflt = (case field of None \<Rightarrow> dflt | Some v \<Rightarrow> v)"

definition dict_get :: "(string \<times> real) list \<Rightarrow> string \<Rightarrow> real \<Rightarrow> real" where
  "dict_get d k dflt = (case map_of d k of None \<Rightarrow> dflt | Some v \<Rightarrow> v)"

definition dict_index :: "(string \<times> real) list \<Rightarrow> string \<Rightarrow> error + real" where
  "dict_index d k = (case map_of d k of None \<Rightarrow> Inl (KeyError k) | Some v \<Rightarrow> Inr v)"

fun starts_with :: "string \<Rightarrow> string \<Rightarrow> bool" where
  "starts_with s [] = True"
| "starts_with [] (p # ps) = False"
| "starts_with (x # s) (p # ps) = (x = p \<and> starts_with s ps)"

text \<open>\<open>str_in sub s\<close> is Python's \<open>sub in s\<close> on strings.\<close>

fun str_in :: "string \<Rightarrow> string \<Rightarrow> bool" where
  "str_in sub [] = (sub = [])"
| "str_in sub (x # s) = (starts_with (x # s) sub \<or> str_in sub s)"

text \<open>\<open>str.lower()\<close> on the ASCII letters; every other character stays.\<close>

definition lower_char :: "char \<Rightarrow> char" where
  "lower_char ch =
     (case map_of (zip ''ABCDEFGHIJKLMNOPQRSTUVWXYZ'' ''abcdefghijklmnopqrstuvwxyz'') ch of
        None \<Rightarrow> ch
      | Some l \<Rightarrow> l)"

definition lower :: "string \<Rightarrow> string" where
  "lower s = map lower_char s"

text \<open>
  \<open>str(i)\<close> of an int, as the f-string formats it. An interpreter configured with a limit
  on the digits of this conversion (4300 by default where the limit exists) raises
  \<open>ValueError\<close> beyond it; here every int is formatted.
\<close>

fun digits :: "nat \<Rightarrow> string" where
  "digits n =
     (if n < 10 then [''0123456789'' ! n]
      else digits (n div 10) @ [''0123456789'' ! (n mod 10)])"

definition str_of_int :: "int \<Rightarrow> string" where
  "str_of_int i = (if i < 0 then CHR ''-'' # digits (nat (- i)) else digits (nat i))"

subsection \<open>The weight tables of \<open>__init__\<close>\<close>

definition w_vehicle_type :: "(string \<times> real) list" where
  "w_vehicle_type =
     [(''Car'', 0.2), (''Bike'', 0.7), (''Truck'', 0.5), (''Bus'', 0.4), (''Auto-rickshaw'', 0.6)]"

definition w_driver_age :: "(string \<times> real) list" where
  "w_driver_age = [(''under_25'', 0.6), (''25_40'', 0.2), (''40_60'', 0.1), (''over_60'', 0.4)]"

definition w_experience :: "(string \<times> real) list" where
  "w_experience = [(''under_2'', 0.7), (''2_5'', 0.4), (''5_10'', 0.2), (''over_10'', 0.1)]"

definition w_license_valid :: "(string \<times> real) list" where
  "w_license_valid = [(''yes'', 0.0), (''no'', 0.8)]"

definition w_seatbelt :: "(string \<times> real) list" where
  "w_seatbelt = [(''yes'', 0.0), (''no'', 0.6)]"

definition w_weather :: "(string \<times> real) list" where
  "w_weather =
     [(''Clear'', 0.1), (''Rainy'', 0.6), (''Foggy'', 0.8), (''Snowy'', 0.9), (''Stormy'', 1.0)]"

definition w_road_surface :: "(string \<times> real) list" where
  "w_road_surface = [(''Dry'', 0.1), (''Wet'', 0.5), (''Icy'', 0.9), (''Muddy'', 0.7)]"

definition w_visibility :: "(string \<times> real) list" where
  "w_visibility = [(''high'', 0.1), (''medium'', 0.4), (''low'', 0.8)]"

definition w_light_condition :: "(string \<times> real) list" where
  "w_light_condition =
     [(''Daylight'', 0.1), (''Night_with_lights'', 0.4), (''Night_without_lights'', 0.7)]"

definition w_road_type :: "(string \<times> real) list" where
  "w_road_type = [(''Highway'', 0.6), (''City_Road'', 0.3), (''Rural_Road'', 0.5)]"

definition w_road_design :: "(string \<times> real) list" where
  "w_road_design =
     [(''Straight'', 0.2), (''Curved'', 0.5), (''Junction'', 0.8), (''Roundabout'', 0.4)]"

definition w_traffic_volume :: "(string \<times> real) list" where
  "w_traffic_volume = [(''Low'', 0.2), (''Medium'', 0.4), (''High'', 0.7)]"

definition speed_factor :: real where
  "speed_factor = 0.01"

definition w_time_of_day :: "(string \<times> real) list" where
  "w_time_of_day =
     [(''Morning'', 0.3), (''Afternoon'', 0.2), (''Evening'', 0.5), (''Night'', 0.6)]"

definition w_day_of_week :: "(string \<times> real) list" where
  "w_day_of_week = [(''weekday'', 0.3), (''weekend'', 0.5)]"

definition w_area_type :: "(string \<times> real) list" where
  "w_area_type = [(''Urban'', 0.4), (''Suburban'', 0.3), (''Rural'', 0.5)]"

definition w_overtaking :: "(string \<times> real) list" where
  "w_overtaking = [(''yes'', 0.7), (''no'', 0.0)]"

definition w_alcohol :: "(string \<times> real) list" where
  "w_alcohol = [(''yes'', 1.0), (''no'', 0.0)]"

definition w_phone_usage :: "(string \<times> real) list" where
  "w_phone_usage = [(''yes'', 0.8), (''no'', 0.0)]"

definition w_accident_history :: real where
  "w_accident_history = 0.1"

definition location_risk_base :: "(string \<times> real) list" where
  "location_risk_base =
     [(''mumbai'', 0.6), (''delhi'', 0.7), (''bangalore'', 0.5), (''chennai'', 0.5),
      (''kolkata'', 0.6), (''hyderabad'', 0.5), (''pune'', 0.5), (''ahmedabad'', 0.6),
      (''default_urban'', 0.5), (''default_rural'', 0.4)]"

subsection \<open>The helpers\<close>

definition generate_seed :: "runtime \<Rightarrow> string \<Rightarrow> conditions \<Rightarrow> 32 word" where
  "generate_seed rt location c =
     md5_hex8 rt (location @ ''_'' @ cond_get (weather c) '''' @ ''_'' @
                  cond_get (time_of_day c) '''' @ ''_'' @ cond_get (road_type c) '''')"

text \<open>The loop over the keys of \<open>location_risk_base\<close>, in insertion order.\<close>

fun first_city :: "(string \<times> real) list \<Rightarrow> string \<Rightarrow> string option" where
  "first_city [] location_lower = None"
| "first_city ((city, r) # rest) location_lower =
     (if str_in city location_lower then Some city else first_city rest location_lower)"

definition urban_keywords :: "string list" where
  "urban_keywords = [''city'', ''metro'', ''downtown'', ''central'', ''commercial'']"

definition rural_keywords :: "string list" where
  "rural_keywords = [''village'', ''countryside'', ''rural'', ''outskirts'']"

definition get_location_risk :: "string \<Rightarrow> error + real" where
  "get_location_risk location =
     (let location_lower = lower location in
      case first_city location_risk_base location_lower of
        Some city \<Rightarrow> dict_index location_risk_base city
      | None \<Rightarrow>
          if list_ex (\<lambda>keyword. str_in keyword location_lower) urban_keywords
          then dict_index location_risk_base ''default_urban''
          else if list_ex (\<lambda>keyword. str_in keyword location_lower) rural_keywords
          then dict_index location_risk_base ''default_rural''
          else Inr 0.45)"

definition calculate_age_risk :: "int \<Rightarrow> string" where
  "calculate_age_risk age =
     (if age < 25 then ''under_25''
      else if age \<le> 40 then ''25_40''
      else if age \<le> 60 then ''40_60''
      else ''over_60'')"

definition calculate_experience_risk :: "int \<Rightarrow> string" where
  "calculate_experience_risk e =
     (if e < 2 then ''under_2''
      else if e \<le> 5 then ''2_5''
      else if e \<le> 10 then ''5_10''
      else ''over_10'')"

text \<open>
  \<open>i * x\<close> for an int \<open>i\<close> and a float \<open>x\<close>: the int is converted to a double, rounding
  to 53 bits, ties to even, and \<open>OverflowError\<close> is raised when the result would pass the
  largest double \<open>2 ^ 1024 - 2 ^ 971\<close>, that is from \<open>2 ^ 1024 - 2 ^ 970\<close> on in absolute
  value.
\<close>

definition float_int_bound :: int where
  "float_int_bound = 2 ^ 1024 - 2 ^ 970"

definition int_times_float :: "int \<Rightarrow> real \<Rightarrow> error + real" where
  "int_times_float i x =
     (if \<bar>i\<bar> < float_int_bound then Inr (of_int i * x) else Inl OverflowError)"

definition calculate_speed_risk :: "int \<Rightarrow> int \<Rightarrow> error + real" where
  "calculate_speed_risk spd lmt =
     (if spd \<le> lmt then Inr 0.0
      else let speed_over = spd - lmt in
        case int_times_float speed_over speed_factor of
          Inl e \<Rightarrow> Inl e
        | Inr x \<Rightarrow> Inr (min x 1.0))"

subsection \<open>Rounding and the seeded generator\<close>

definition round_half_even :: "real \<Rightarrow> int" where
  "round_half_even x =
     (let f = \<lfloor>x\<rfloor>; d = x - of_int f in
      if d < 1 / 2 then f else if 1 / 2 < d then f + 1 else if even f then f else f + 1)"

definition py_round :: "real \<Rightarrow> nat \<Rightarrow> real" where
  "py_round x n = of_int (round_half_even (x * 10 ^ n)) / 10 ^ n"

text \<open>\<open>random.random()\<close> is a 53-bit integer over \<open>2 ^ 53\<close>, so it lies in \<open>[0, 1)\<close>.\<close>

definition random_unit :: "runtime \<Rightarrow> 32 word \<Rightarrow> nat \<Rightarrow> real" where
  "random_unit rt seed k = real (mt_draw rt seed k mod 2 ^ 53) / 2 ^ 53"

text \<open>\<open>random.uniform(a, b)\<close>, as the \<open>k\<close>-th draw since the seeding.\<close>

definition uniform :: "runtime \<Rightarrow> 32 word \<Rightarrow> nat \<Rightarrow> real \<Rightarrow> real \<Rightarrow> real" where
  "uniform rt seed k a b = a + (b - a) * random_unit rt seed k"

subsection \<open>The accumulated risk\<close>

text \<open>
  The statements \<open>total_risk += ...\<close> of \<open>predict_accident_risk\<close>, in source order.
  A lookup with \<open>[...]\<close> raises \<open>KeyError\<close> on a missing key, one with \<open>.get\<close> does not;
  the speed risk and the accident history multiply an int by a float.
\<close>

definition contributions :: "conditions \<Rightarrow> (error + real) list" where
  "contributions c =
     [Inr (dict_get w_vehicle_type (cond_get (vehicle_type c) ''Car'') 0.3),
      dict_index w_driver_age (calculate_age_risk (cond_get (driver_age c) 30)),
      dict_index w_experience (calculate_experience_risk (cond_get (experience c) 5)),
      dict_index w_license_valid (cond_get (license_valid c) ''yes''),
      dict_index w_seatbelt (cond_get (seatbelt c) ''yes''),
      Inr (dict_get w_weather (cond_get (weather c) ''Clear'') 0.3),
      dict_index w_road_surface (cond_get (road_surface c) ''Dry''),
      dict_index w_visibility (cond_get (visibility c) ''high''),
      dict_index w_light_condition (cond_get (light_condition c) ''Daylight''),
      dict_index w_road_type (cond_get (road_type c) ''City_Road''),
      dict_index w_road_design (cond_get (road_design c) ''Straight''),
      dict_index w_traffic_volume (cond_get (traffic_volume c) ''Medium''),
      calculate_speed_risk (cond_get (current_speed c) 40) (cond_get (speed_limit c) 50),
      dict_index w_time_of_day (cond_get (time_of_day c) ''Afternoon''),
      dict_index w_day_of_week (if cond_get (is_weekend c) False then ''weekend'' else ''weekday''),
      dict_index w_area_type (cond_get (area_type c) ''Urban''),
      dict_index w_overtaking (cond_get (overtaking c) ''no''),
      dict_index w_alcohol (cond_get (alcohol c) ''no''),
      dict_index w_phone_usage (cond_get (phone_usage c) ''no''),
      int_times_float (cond_get (accident_history c) 0) w_accident_history]"

fun accumulate :: "real \<Rightarrow> (error + real) list \<Rightarrow> error + real" where
  "accumulate t [] = Inr t"
| "accumulate t (Inl e # ws) = Inl e"
| "accumulate t (Inr w # ws) = accumulate (t + w) ws"

definition total_risk :: "string \<Rightarrow> conditions \<Rightarrow> error + real" where
  "total_risk location c =
     (case get_location_risk location of
        Inl e \<Rightarrow> Inl e
      | Inr base \<Rightarrow> accumulate base (contributions c))"

definition normalized_risk :: "real \<Rightarrow> real" where
  "normalized_risk tot = min (max (tot / 8.0) 0.05) 0.95"

definition final_risk :: "runtime \<Rightarrow> 32 word \<Rightarrow> real \<Rightarrow> real" where
  "final_risk rt seed tot =
     (let random_factor = uniform rt seed 0 0.95 1.05
      in min (normalized_risk tot * random_factor) 0.95)"

text \<open>The four variables set by the severity branches: severity, code, colour, risk level.\<close>

definition severity_of :: "real \<Rightarrow> string \<times> int \<times> string \<times> string" where
  "severity_of fr =
     (if fr < 0.3 then (''Low'', 0, ''#28a745'', ''Low Risk'')
      else if fr < 0.6 then (''Medium'', 1, ''#ffc107'', ''Medium Risk'')
      else (''High'', 2, ''#dc3545'', ''High Risk''))"

text \<open>The probability triple \<open>(prob_low, prob_medium, prob_high)\<close> before normalisation.\<close>

definition probability_distribution ::
  "runtime \<Rightarrow> 32 word \<Rightarrow> int \<Rightarrow> real \<Rightarrow> real \<times> real \<times> real" where
  "probability_distribution rt seed code fr =
     (if code = 0 then
        let prob_low = fr + uniform rt seed 1 0.4 0.5;
            prob_medium = (1 - prob_low) * uniform rt seed 2 0.6 0.8;
            prob_high = 1 - prob_low - prob_medium
        in (prob_low, prob_medium, prob_high)
      else if code = 1 then
        let prob_medium = fr + uniform rt seed 1 0.2 0.3;
            prob_low = (1 - prob_medium) * uniform rt seed 2 0.3 0.6;
            prob_high = 1 - prob_low - prob_medium
        in (prob_low, prob_medium, prob_high)
      else
        let prob_high = fr + uniform rt seed 1 0.1 0.2;
            prob_medium = (1 - prob_high) * uniform rt seed 2 0.4 0.7;
            prob_low = 1 - prob_high - prob_medium
        in (prob_low, prob_medium, prob_high))"

subsection \<open>Recommendations and risk factors\<close>

definition rec_weather :: string where
  "rec_weather = [CHR 0xF0, CHR 0x9F, CHR 0x8C, CHR 0xA7, CHR 0xEF, CHR 0xB8, CHR 0x8F] @
     '' Reduce speed due to adverse weather conditions''"

definition rec_distance :: string where
  "rec_distance = [CHR 0xF0, CHR 0x9F, CHR 0x9A, CHR 0x97] @ '' Increase following distance''"

definition rec_speed :: "int \<Rightarrow> string" where
  "rec_speed lmt = [CHR 0xE2, CHR 0x9A, CHR 0xA0, CHR 0xEF, CHR 0xB8, CHR 0x8F] @
     '' Reduce speed to within '' @ str_of_int lmt @ '' km/h limit''"

definition rec_night :: string where
  "rec_night = [CHR 0xF0, CHR 0x9F, CHR 0x8C, CHR 0x99] @
     '' Use headlights and drive cautiously at night''"

definition rec_helmet :: string where
  "rec_helmet = [CHR 0xF0, CHR 0x9F, CHR 0x8F, CHR 0x8D, CHR 0xEF, CHR 0xB8, CHR 0x8F] @
     '' Wear helmet and protective gear''"

definition rec_seatbelt :: string where
  "rec_seatbelt = [CHR 0xF0, CHR 0x9F, CHR 0x94, CHR 0x92] @ '' Always wear seatbelt for safety''"

definition rec_alcohol :: string where
  "rec_alcohol = [CHR 0xF0, CHR 0x9F, CHR 0x9A, CHR 0xAB] @
     '' Never drive under influence of alcohol''"

definition rec_phone :: string where
  "rec_phone = [CHR 0xF0, CHR 0x9F, CHR 0x93, CHR 0xB1] @ '' Avoid phone usage while driving''"

definition rec_postpone :: string where
  "rec_postpone = [CHR 0xE2, CHR 0x9A, CHR 0xA0, CHR 0xEF, CHR 0xB8, CHR 0x8F] @
     '' Consider postponing travel if possible''"

definition rec_caution :: string where
  "rec_caution = [CHR 0xF0, CHR 0x9F, CHR 0x9A, CHR 0xA8] @
     '' Extra caution required - high risk conditions''"

definition rec_attention :: string where
  "rec_attention = [CHR 0xE2, CHR 0x9A, CHR 0xA1] @ '' Drive with increased attention''"

text \<open>
  The list grows by \<open>append\<close> in source order; each \<open>if\<close> of the source is one
  segment here, empty when its test fails. The slice \<open>[:6]\<close> is \<open>take 6\<close>.
\<close>

definition generate_recommendations :: "conditions \<Rightarrow> int \<Rightarrow> string list" where
  "generate_recommendations c code =
     take 6
      ((if cond_get (weather c) ''Clear'' \<in> set [''Rainy'', ''Foggy'', ''Snowy'', ''Stormy'']
        then [rec_weather, rec_distance] else []) @
       (if cond_get (current_speed c) 0 > cond_get (speed_limit c) 50
        then [rec_speed (cond_get (speed_limit c) 50)] else []) @
       (if str_in ''Night'' (cond_get (light_condition c) ''Daylight'') then [rec_night] else []) @
       (if cond_get (vehicle_type c) ''Car'' = ''Bike'' then [rec_helmet] else []) @
       (if cond_get (seatbelt c) ''yes'' = ''no'' then [rec_seatbelt] else []) @
       (if cond_get (alcohol c) ''no'' = ''yes'' then [rec_alcohol] else []) @
       (if cond_get (phone_usage c) ''no'' = ''yes'' then [rec_phone] else []) @
       (if code \<ge> 2 then [rec_postpone, rec_caution]
        else if code = 1 then [rec_attention] else []))"

text \<open>
  Where the source formats \<open>conditions['weather']\<close> (and likewise the road surface and
  the road design) the key is present: with the key absent \<open>.get\<close> gives the default and
  the test fails.
\<close>

definition identify_risk_factors :: "conditions \<Rightarrow> string list" where
  "identify_risk_factors c =
     (case weather c of
        None \<Rightarrow> []
      | Some w \<Rightarrow> if w \<noteq> ''Clear'' then [''Weather: '' @ w] else []) @
     (case road_surface c of
        None \<Rightarrow> []
      | Some s \<Rightarrow> if s \<noteq> ''Dry'' then [''Road Surface: '' @ s] else []) @
     (if cond_get (visibility c) ''high'' \<noteq> ''high'' then [''Poor Visibility''] else []) @
     (if str_in ''Night'' (cond_get (light_condition c) ''Daylight'') then [''Night Driving'']
      else []) @
     (if cond_get (traffic_volume c) ''Low'' = ''High'' then [''Heavy Traffic''] else []) @
     (if cond_get (current_speed c) 0 > cond_get (speed_limit c) 50 then [''Speeding''] else []) @
     (case road_design c of
        None \<Rightarrow> []
      | Some d \<Rightarrow> if d \<in> set [''Junction'', ''Curved''] then [''Road Design: '' @ d] else []) @
     (if cond_get (driver_age c) 30 < 25 then [''Young Driver''] else []) @
     (if cond_get (experience c) 5 < 2 then [''Inexperienced Driver''] else [])"

text \<open>\<open>len(conditions)\<close>: the number of keys present.\<close>

definition len_conditions :: "conditions \<Rightarrow> nat" where
  "len_conditions c =
     length (filter (\<lambda>present. present)
       [vehicle_type c \<noteq> None, driver_age c \<noteq> None, experience c \<noteq> None,
        license_valid c \<noteq> None, seatbelt c \<noteq> None, weather c \<noteq> None,
        road_surface c \<noteq> None, visibility c \<noteq> None, light_condition c \<noteq> None,
        road_type c \<noteq> None, road_design c \<noteq> None, traffic_volume c \<noteq> None,
        speed_limit c \<noteq> None, current_speed c \<noteq> None, time_of_day c \<noteq> None,
        is_weekend c \<noteq> None, area_type c \<noteq> None, overtaking c \<noteq> None,
        alcohol c \<noteq> None, phone_usage c \<noteq> None, accident_history c \<noteq> None])"

subsection \<open>The prediction\<close>

text \<open>The body of the \<open>try\<close> block.\<close>

definition predict_body :: "runtime \<Rightarrow> string \<Rightarrow> conditions \<Rightarrow> error + assessment" where
  "predict_body rt location c =
     (let seed = generate_seed rt location c in
      case total_risk location c of
        Inl e \<Rightarrow> Inl e
      | Inr tot \<Rightarrow>
          (let fr = final_risk rt seed tot;
               (severity, code, col, risk_level) = severity_of fr;
               (prob_low, prob_medium, prob_high) = probability_distribution rt seed code fr;
               total_prob = prob_low + prob_medium + prob_high
           in if total_prob = 0 then Inl ZeroDivisionError
              else
                (let conf = min (max (fr + uniform rt seed 3 0.1 0.2) 0.6) 0.95
                 in Inr \<lparr>result_location = location,
                         timestamp = now_isoformat rt,
                         predicted_severity = risk_level,
                         severity_code = code,
                         confidence = py_round conf 3,
                         risk_score = py_round (fr * 100) 1,
                         probs = \<lparr>low = py_round (prob_low / total_prob) 3,
                                  medium = py_round (prob_medium / total_prob) 3,
                                  high = py_round (prob_high / total_prob) 3\<rparr>,
                         color = col,
                         recommendations = generate_recommendations c code,
                         risk_factors = identify_risk_factors c,
                         info = \<lparr>model_type = ''Advanced ML Ensemble'',
                                 accuracy = ''94.7%'',
                                 features_analyzed = len_conditions c\<rparr>\<rparr>)))"

text \<open>The handler \<open>except Exception\<close> catches whatever the body raised.\<close>

definition predict_accident_risk :: "runtime \<Rightarrow> string \<Rightarrow> conditions \<Rightarrow> result" where
  "predict_accident_risk rt location c =
     (case predict_body rt location c of
        Inl e \<Rightarrow> Failure ''Prediction calculation failed'' location
      | Inr a \<Rightarrow> Success a)"

subsection \<open>The caller's conditions\<close>

text \<open>
  The dict that \<open>predict_comprehensive\<close> of app/api.py builds from a request body that
  gives only the location: every key is present, with the default of the HTTP layer.
\<close>

definition api_defaults :: conditions where
  "api_defaults =
     \<lparr>vehicle_type = Some ''Car'', driver_age = Some 30, experience = Some 5,
      license_valid = Some ''yes'', seatbelt = Some ''yes'', weather = Some ''Clear'',
      road_surface = Some ''Dry'', visibility = Some ''high'',
      light_condition = Some ''Daylight'', road_type = Some ''City_Road'',
      road_design = Some ''Straight'', traffic_volume = Some ''Medium'',
      speed_limit = Some 60, current_speed = Some 50, time_of_day = Some ''Afternoon'',
      is_weekend = Some False, area_type = Some ''Urban'', overtaking = Some ''no'',
      alcohol = Some ''no'', phone_usage = Some ''no'', accident_history = Some 0\<rparr>"

text \<open>The empty dict: every \<open>.get\<close> of the scorer falls back to its own default.\<close>

definition no_conditions :: conditions where
  "no_conditions =
     \<lparr>vehicle_type = None, driver_age = None, experience = None, license_valid = None,
      seatbelt = None, weather = None, road_surface = None, visibility = None,
      light_condition = None, road_type = None, road_design = None, traffic_volume = None,
      speed_limit = None, current_speed = None, time_of_day = None, is_weekend = None,
      area_type = None, overtaking = None, alcohol = None, phone_usage = None,
      accident_history = None\<rparr>"


subsection \<open>The recommendation checklist, as the specification words it\<close>

text \<open>
  The specification describes the recommendations as a fixed ordered checklist (adverse
  weather, speeding, night driving, two-wheeler gear, no seatbelt, alcohol, phone usage,
  closing remarks by severity): each entry is a test with the texts it contributes.
\<close>

definition recommendation_checklist :: "conditions \<Rightarrow> int \<Rightarrow> (bool \<times> string list) list" where
  "recommendation_checklist c code =
     [(cond_get (weather c) ''Clear'' \<in> {''Rainy'', ''Foggy'', ''Snowy'', ''Stormy''},
         [rec_weather, rec_distance]),
      (cond_get (speed_limit c) 50 < cond_get (current_speed c) 0,
         [rec_speed (cond_get (speed_limit c) 50)]),
      (str_in ''Night'' (cond_get (light_condition c) ''Daylight''), [rec_night]),
      (cond_get (vehicle_type c) ''Car'' = ''Bike'', [rec_helmet]),
      (cond_get (seatbelt c) ''yes'' = ''no'', [rec_seatbelt]),
      (cond_get (alcohol c) ''no'' = ''yes'', [rec_alcohol]),
      (cond_get (phone_usage c) ''no'' = ''yes'', [rec_phone]),
      (2 \<le> code, [rec_postpone, rec_caution]),
      (code = 1, [rec_attention])]"

fun checklist_matches :: "(bool \<times> string list) list \<Rightarrow> string list" where
  "checklist_matches [] = []"
| "checklist_matches ((test, texts) # items) =
     (if test then texts @ checklist_matches items else checklist_matches items)"

text \<open>A night ride of a drunk, unbelted biker on the phone, speeding in a storm.\<close>

definition reckless_conditions :: conditions where
  "reckless_conditions =
     \<lparr>vehicle_type = Some ''Bike'', driver_age = Some 22, experience = Some 1,
      license_valid = Some ''no'', seatbelt = Some ''no'', weather = Some ''Stormy'',
      road_surface = Some ''Wet'', visibility = Some ''low'',
      light_condition = Some ''Night_without_lights'', road_type = Some ''Highway'',
      road_design = Some ''Curved'', traffic_volume = Some ''High'',
      speed_limit = Some 80, current_speed = Some 120, time_of_day = Some ''Night'',
      is_weekend = Some True, area_type = Some ''Rural'', overtaking = Some ''yes'',
      alcohol = Some ''yes'', phone_usage = Some ''yes'', accident_history = Some 2\<rparr>"

subsection \<open>Unknown values of the categorical fields\<close>

text \<open>
  A field holds an unknown value when its key is present with a value that is no key of
  the weight table. The thirteen fields that \<open>predict_accident_risk\<close> looks up with
  \<open>[...]\<close>, each with the default of its \<open>.get\<close> and its table:
\<close>

definition unknown_key :: "string option \<Rightarrow> (string \<times> real) list \<Rightarrow> bool" where
  "unknown_key field table = (case field of None \<Rightarrow> False | Some v \<Rightarrow> map_of table v = None)"

definition exact_lookups ::
  "conditions \<Rightarrow> (string option \<times> string \<times> (string \<times> real) list) list" where
  "exact_lookups c =
     [(road_surface c, ''Dry'', w_road_surface), (visibility c, ''high'', w_visibility),
      (light_condition c, ''Daylight'', w_light_condition),
      (road_type c, ''City_Road'', w_road_type), (road_design c, ''Straight'', w_road_design),
      (traffic_volume c, ''Medium'', w_traffic_volume),
      (time_of_day c, ''Afternoon'', w_time_of_day), (area_type c, ''Urban'', w_area_type),
      (license_valid c, ''yes'', w_license_valid), (seatbelt c, ''yes'', w_seatbelt),
      (overtaking c, ''no'', w_overtaking), (alcohol c, ''no'', w_alcohol),
      (phone_usage c, ''no'', w_phone_usage)]"

definition some_exact_field_unknown :: "conditions \<Rightarrow> bool" where
  "some_exact_field_unknown c = list_ex (\<lambda>(field, dflt, table). unknown_key field table) (exact_lookups c)"

subsection \<open>Valid conditions\<close>

text \<open>
  The claims speak of valid conditions: every categorical field that is present holds a
  value of the domain the specification enumerates for it, every numeric field that is
  present is non-negative.
\<close>

definition in_domain :: "string option \<Rightarrow> string list \<Rightarrow> bool" where
  "in_domain field values = (case field of None \<Rightarrow> True | Some v \<Rightarrow> v \<in> set values)"

definition non_negative :: "int option \<Rightarrow> bool" where
  "non_negative field = (case field of None \<Rightarrow> True | Some n \<Rightarrow> 0 \<le> n)"

definition valid_conditions :: "conditions \<Rightarrow> bool" where
  "valid_conditions c \<longleftrightarrow>
     in_domain (vehicle_type c)
       [''Car'', ''Bike'', ''Truck'', ''Bus'', ''Auto-rickshaw'', ''Bicycle'']
     \<and> in_domain (weather c) [''Clear'', ''Rainy'', ''Foggy'', ''Snowy'', ''Stormy'', ''Hazy'']
     \<and> in_domain (road_surface c) [''Dry'', ''Wet'', ''Icy'', ''Muddy'']
     \<and> in_domain (visibility c) [''high'', ''medium'', ''low'']
     \<and> in_domain (light_condition c) [''Daylight'', ''Night_with_lights'', ''Night_without_lights'']
     \<and> in_domain (road_type c) [''Highway'', ''City_Road'', ''Rural_Road'']
     \<and> in_domain (road_design c) [''Straight'', ''Curved'', ''Junction'', ''Roundabout'']
     \<and> in_domain (traffic_volume c) [''Low'', ''Medium'', ''High'']
     \<and> in_domain (time_of_day c) [''Morning'', ''Afternoon'', ''Evening'', ''Night'']
     \<and> in_domain (area_type c) [''Urban'', ''Suburban'', ''Rural'']
     \<and> in_domain (license_valid c) [''yes'', ''no'']
     \<and> in_domain (seatbelt c) [''yes'', ''no'']
     \<and> in_domain (overtaking c) [''yes'', ''no'']
     \<and> in_domain (alcohol c) [''yes'', ''no'']
     \<and> in_domain (phone_usage c) [''yes'', ''no'']
     \<and> non_negative (driver_age c) \<and> non_negative (experience c)
     \<and> non_negative (speed_limit c) \<and> non_negative (current_speed c)
     \<and> non_negative (accident_history c)"

text \<open>
  The integers that the scorer multiplies by a float, the accident history and a positive
  speed excess, are convertible to a double.
\<close>

definition in_float_range :: "conditions \<Rightarrow> bool" where
  "in_float_range c \<longleftrightarrow>
     \<bar>cond_get (accident_history c) 0\<bar> < float_int_bound
     \<and> cond_get (current_speed c) 40 - cond_get (speed_limit c) 50 < float_int_bound"

subsection \<open>A run of CPython\<close>

text \<open>
  What \<open>hashlib.md5\<close> and the Mersenne Twister of \<open>random\<close> give in CPython 3 for
  the seed strings \<open>Bangalore_Clear_Afternoon_City_Road\<close> and
  \<open>Bangalore_Tornado_Afternoon_City_Road\<close>: the seeds \<open>0x09368f57\<close> and \<open>0x2605b23d\<close>,
  and for each the first four values of \<open>random.random()\<close>, as integers over \<open>2 ^ 53\<close>.
  Every other seed string is mapped to 0 here, and no statement below depends on the
  value at one.
\<close>

definition cpython_runtime :: runtime where
  "cpython_runtime =
     \<lparr>md5_hex8 = (\<lambda>s.
        if s = ''Bangalore_Clear_Afternoon_City_Road'' then 0x09368f57
        else if s = ''Bangalore_Tornado_Afternoon_City_Road'' then 0x2605b23d
        else 0),
      mt_draw = (\<lambda>seed k.
        if seed = 0x09368f57 then
          (if k = 0 then 5948132531886342
           else if k = 1 then 5506888846639550
           else if k = 2 then 8105886014536222
           else if k = 3 then 1235062869068390
           else 0)
        else if seed = 0x2605b23d then
          (if k = 0 then 8529684243368216
           else if k = 1 then 2024754793530353
           else if k = 2 then 3759212648618098
           else if k = 3 then 5989240104724569
           else 0)
        else 0),
      now_isoformat = ''2024-01-01T12:00:00''\<rparr>"

text \<open>The result of the call on Bangalore with the conditions of an empty request.\<close>

definition bangalore_assessment :: assessment where
  "bangalore_assessment =
     \<lparr>result_location = ''Bangalore'', timestamp = ''2024-01-01T12:00:00'',
       predicted_severity = ''Medium Risk'', severity_code = 1, confidence = 0.6,
       risk_score = 44.5, probs = \<lparr>low = 0.168, medium = 0.706, high = 0.127\<rparr>,
       color = ''#ffc107'', recommendations = [rec_attention], risk_factors = [],
       info = \<lparr>model_type = ''Advanced ML Ensemble'', accuracy = ''94.7%'',
               features_analyzed = 21\<rparr>\<rparr>"

section \<open>Basic facts\<close>

subsection \<open>Rounding, draws, accumulation\<close>

lemma round_half_even_lower: "x - 1 / 2 \<le> of_int (round_half_even x)"
  unfolding round_half_even_def Let_def by (auto; linarith)

lemma round_half_even_upper: "of_int (round_half_even x) \<le> x + 1 / 2"
  unfolding round_half_even_def Let_def by (auto; linarith)

lemma round_half_even_of_int [simp]: "round_half_even (of_int n) = n"
  unfolding round_half_even_def Let_def by simp

lemma round_half_even_mono:
  assumes "x \<le> y" shows "round_half_even x \<le> round_half_even y"
proof (cases "\<lfloor>x\<rfloor> = \<lfloor>y\<rfloor>")
  case True
  with assms show ?thesis unfolding round_half_even_def Let_def by auto
next
  case False
  with assms have lt: "\<lfloor>x\<rfloor> < \<lfloor>y\<rfloor>" using floor_mono [of x y] by linarith
  have a: "round_half_even x \<le> \<lfloor>x\<rfloor> + 1" unfolding round_half_even_def Let_def by auto
  have b: "\<lfloor>y\<rfloor> \<le> round_half_even y" unfolding round_half_even_def Let_def by auto
  from lt a b show ?thesis by linarith
qed

lemma py_round_mono: "x \<le> y \<Longrightarrow> py_round x n \<le> py_round y n"
  unfolding py_round_def
  by (intro divide_right_mono) (auto intro!: round_half_even_mono mult_right_mono)

lemma py_round_exact: "py_round (of_int k / 10 ^ n) n = of_int k / 10 ^ n"
  unfolding py_round_def by simp

lemma py_round_error: "\<bar>py_round x n - x\<bar> \<le> 1 / (2 * 10 ^ n)"
proof -
  define y where "y = x * 10 ^ n"
  define r where "r = (of_int (round_half_even y) :: real)"
  have p: "(0::real) < 10 ^ n" by simp
  have h: "\<bar>r - y\<bar> \<le> 1 / 2"
    using round_half_even_lower [of y] round_half_even_upper [of y] unfolding r_def by linarith
  have e: "py_round x n - x = (r - y) / 10 ^ n"
    unfolding py_round_def r_def y_def by (simp add: diff_divide_distrib)
  have "\<bar>(r - y) / 10 ^ n\<bar> = \<bar>r - y\<bar> / 10 ^ n"
    by (simp add: abs_divide)
  also have "\<dots> \<le> (1 / 2) / 10 ^ n"
    using h p by (intro divide_right_mono) auto
  also have "\<dots> = 1 / (2 * 10 ^ n)" by simp
  finally show ?thesis using e by simp
qed

lemma random_unit_range: "0 \<le> random_unit rt seed k \<and> random_unit rt seed k < 1"
proof -
  have "mt_draw rt seed k mod 2 ^ 53 < 2 ^ 53" by simp
  then have "real (mt_draw rt seed k mod 2 ^ 53) < 2 ^ 53"
    by (metis of_nat_less_iff of_nat_numeral of_nat_power)
  then show ?thesis unfolding random_unit_def by simp
qed

lemma uniform_range: "a \<le> b \<Longrightarrow> a \<le> uniform rt seed k a b \<and> uniform rt seed k a b \<le> b"
proof -
  assume ab: "a \<le> b"
  have r: "0 \<le> random_unit rt seed k" "random_unit rt seed k \<le> 1"
    using random_unit_range [of rt seed k] by auto
  have "0 \<le> (b - a) * random_unit rt seed k" using ab r by simp
  moreover have "(b - a) * random_unit rt seed k \<le> (b - a) * 1"
    using ab r by (intro mult_left_mono) auto
  ultimately show ?thesis unfolding uniform_def by simp
qed

lemma accumulate_Cons_iff:
  "accumulate b (w # ws) = Inr t \<longleftrightarrow> (\<exists>x. w = Inr x \<and> accumulate (b + x) ws = Inr t)"
  by (cases w) auto

lemma accumulate_lower:
  "accumulate b ws = Inr t \<Longrightarrow> (\<And>x. Inr x \<in> set ws \<Longrightarrow> 0 \<le> x) \<Longrightarrow> b \<le> t"
proof (induction b ws rule: accumulate.induct)
  case (1 t)
  then show ?case by simp
next
  case (2 t e ws)
  then show ?case by simp
next
  case (3 t w ws)
  have "0 \<le> w" using 3(3) by simp
  moreover have "t + w \<le> t" if False using that by simp
  have "t + w \<le> ta" if "accumulate (t + w) ws = Inr ta" for ta
    using that 3 by simp
  ultimately show ?case using 3 by fastforce
qed

lemma accumulate_total:
  "(\<And>w. w \<in> set ws \<Longrightarrow> \<exists>x. w = Inr x) \<Longrightarrow> \<exists>t. accumulate b ws = Inr t"
proof (induction b ws rule: accumulate.induct)
  case (1 t)
  then show ?case by simp
next
  case (2 t e ws)
  then show ?case by fastforce
next
  case (3 t w ws)
  then show ?case by simp
qed

lemma accumulate_Inl:
  "Inl e \<in> set ws \<Longrightarrow> \<exists>e'. accumulate b ws = Inl e'"
  by (induction b ws rule: accumulate.induct) auto

lemma accumulate_mono:
  "accumulate b ws = Inr t \<Longrightarrow> b \<le> b' \<Longrightarrow> \<exists>t'. accumulate b' ws = Inr t' \<and> t \<le> t'"
  by (induction b ws arbitrary: b' rule: accumulate.induct) auto


subsection \<open>Lookups and the location risk\<close>

lemmas weight_tables =
  w_vehicle_type_def w_driver_age_def w_experience_def w_license_valid_def w_seatbelt_def
  w_weather_def w_road_surface_def w_visibility_def w_light_condition_def w_road_type_def
  w_road_design_def w_traffic_volume_def w_time_of_day_def w_day_of_week_def w_area_type_def
  w_overtaking_def w_alcohol_def w_phone_usage_def w_accident_history_def speed_factor_def

lemma dict_index_in: "dict_index d k = Inr r \<Longrightarrow> (k, r) \<in> set d"
  unfolding dict_index_def by (auto split: option.splits dest: map_of_SomeD)

lemma dict_index_key: "k \<in> fst ` set d \<Longrightarrow> \<exists>r. dict_index d k = Inr r"
  unfolding dict_index_def by (cases "map_of d k") (auto simp: map_of_eq_None_iff)

lemma dict_index_no_key: "k \<notin> fst ` set d \<Longrightarrow> dict_index d k = Inl (KeyError k)"
  unfolding dict_index_def by (simp add: map_of_eq_None_iff [THEN iffD2])

lemma first_city_key: "first_city d l = Some city \<Longrightarrow> city \<in> fst ` set d"
  by (induction d l rule: first_city.induct) (auto split: if_splits)

lemma location_base_range: "(k, r) \<in> set location_risk_base \<Longrightarrow> 0.4 \<le> r \<and> r \<le> 0.7"
  unfolding location_risk_base_def by auto

lemma get_location_risk_range:
  "\<exists>r. get_location_risk l = Inr r \<and> 0.4 \<le> r \<and> r \<le> 0.7"
proof (cases "first_city location_risk_base (lower l)")
  case None
  have u: "dict_index location_risk_base ''default_urban'' = Inr 0.5"
    by (simp add: dict_index_def location_risk_base_def)
  have r: "dict_index location_risk_base ''default_rural'' = Inr 0.4"
    by (simp add: dict_index_def location_risk_base_def)
  have "get_location_risk l = Inr 0.5 \<or> get_location_risk l = Inr 0.4
        \<or> get_location_risk l = Inr 0.45"
    unfolding get_location_risk_def Let_def None by (simp add: u r)
  then show ?thesis by auto
next
  case (Some city)
  then obtain r where r: "dict_index location_risk_base city = Inr r"
    using first_city_key dict_index_key by blast
  then have "0.4 \<le> r \<and> r \<le> 0.7"
    using dict_index_in location_base_range by blast
  then show ?thesis unfolding get_location_risk_def Let_def Some using r by simp
qed

subsection \<open>Evaluation at the caller's defaults\<close>

lemma location_pune: "get_location_risk ''Pune'' = Inr 0.5"
  by (simp add: get_location_risk_def lower_def lower_char_def location_risk_base_def
      dict_index_def)

lemma contributions_api_defaults:
  "contributions api_defaults =
     map Inr [0.2, 0.2, 0.4, 0, 0, 0.1, 0.1, 0.1, 0.1, 0.3, 0.2, 0.4, 0, 0.2, 0.3, 0.4, 0, 0, 0, 0]"
  by (simp add: contributions_def api_defaults_def cond_get_def dict_get_def dict_index_def
      weight_tables calculate_age_risk_def calculate_experience_risk_def calculate_speed_risk_def
      int_times_float_def float_int_bound_def)

lemma total_risk_pune: "total_risk ''Pune'' api_defaults = Inr 3.5"
  by (simp add: total_risk_def location_pune contributions_api_defaults)

subsection \<open>The result of a call\<close>

lemma probability_distribution_sum:
  "probability_distribution rt seed code fr = (pl, pm, ph) \<Longrightarrow> pl + pm + ph = 1"
  unfolding probability_distribution_def Let_def by (auto split: if_splits)

lemma predict_body_Inr:
  assumes "total_risk l c = Inr t"
  shows "predict_body rt l c =
     (let seed = generate_seed rt l c;
          fr = final_risk rt seed t;
          sev = severity_of fr;
          code = fst (snd sev);
          pd = probability_distribution rt seed code fr
      in Inr \<lparr>result_location = l,
              timestamp = now_isoformat rt,
              predicted_severity = snd (snd (snd sev)),
              severity_code = code,
              confidence = py_round (min (max (fr + uniform rt seed 3 0.1 0.2) 0.6) 0.95) 3,
              risk_score = py_round (fr * 100) 1,
              probs = \<lparr>low = py_round (fst pd) 3,
                       medium = py_round (fst (snd pd)) 3,
                       high = py_round (snd (snd pd)) 3\<rparr>,
              color = fst (snd (snd sev)),
              recommendations = generate_recommendations c code,
              risk_factors = identify_risk_factors c,
              info = \<lparr>model_type = ''Advanced ML Ensemble'',
                      accuracy = ''94.7%'',
                      features_analyzed = len_conditions c\<rparr>\<rparr>)"
proof -
  define seed where "seed = generate_seed rt l c"
  define fr where "fr = final_risk rt seed t"
  obtain sv code col rl where sev: "severity_of fr = (sv, code, col, rl)"
    by (metis prod_cases4)
  obtain pl pm ph where pd: "probability_distribution rt seed code fr = (pl, pm, ph)"
    by (metis prod_cases3)
  have one: "pl + pm + ph = 1" using pd by (rule probability_distribution_sum)
  show ?thesis
    unfolding predict_body_def Let_def assms
    by (simp add: seed_def [symmetric] fr_def [symmetric] sev pd one)
qed

lemma predict_Inl:
  "total_risk l c = Inl e \<Longrightarrow>
   predict_accident_risk rt l c = Failure ''Prediction calculation failed'' l"
  unfolding predict_accident_risk_def predict_body_def Let_def by simp

lemma predict_Success_total:
  "predict_accident_risk rt l c = Success r \<Longrightarrow> \<exists>t. total_risk l c = Inr t"
  by (cases "total_risk l c") (auto simp: predict_Inl)

lemma predict_Inr:
  assumes "total_risk l c = Inr t"
  shows "\<exists>r. predict_accident_risk rt l c = Success r
     \<and> risk_score r = py_round (final_risk rt (generate_seed rt l c) t * 100) 1
     \<and> (predicted_severity r, severity_code r, color r)
         = (snd (snd (snd (severity_of (final_risk rt (generate_seed rt l c) t)))),
            fst (snd (severity_of (final_risk rt (generate_seed rt l c) t))),
            fst (snd (snd (severity_of (final_risk rt (generate_seed rt l c) t)))))
     \<and> (low (probs r), medium (probs r), high (probs r))
         = (let pd = probability_distribution rt (generate_seed rt l c) (severity_code r)
                       (final_risk rt (generate_seed rt l c) t)
            in (py_round (fst pd) 3, py_round (fst (snd pd)) 3, py_round (snd (snd pd)) 3))
     \<and> recommendations r = generate_recommendations c (severity_code r)
     \<and> risk_factors r = identify_risk_factors c"
  unfolding predict_accident_risk_def predict_body_Inr [OF assms] Let_def by simp

subsection \<open>Which calls succeed\<close>

lemma unknown_key_index:
  "unknown_key f t \<Longrightarrow> dict_index t (cond_get f d) = Inl (KeyError (cond_get f d))"
  by (cases f) (auto simp: unknown_key_def cond_get_def dict_index_def)

lemma known_key_index:
  "\<not> unknown_key f t \<Longrightarrow> map_of t d \<noteq> None \<Longrightarrow> \<exists>x. dict_index t (cond_get f d) = Inr x"
  by (cases f) (auto simp: unknown_key_def cond_get_def dict_index_def)

lemma table_nonneg:
  "dict_index w_driver_age k = Inr x \<Longrightarrow> 0 \<le> x"
  "dict_index w_experience k = Inr x \<Longrightarrow> 0 \<le> x"
  "dict_index w_license_valid k = Inr x \<Longrightarrow> 0 \<le> x"
  "dict_index w_seatbelt k = Inr x \<Longrightarrow> 0 \<le> x"
  "dict_index w_road_surface k = Inr x \<Longrightarrow> 0 \<le> x"
  "dict_index w_visibility k = Inr x \<Longrightarrow> 0 \<le> x"
  "dict_index w_light_condition k = Inr x \<Longrightarrow> 0 \<le> x"
  "dict_index w_road_type k = Inr x \<Longrightarrow> 0 \<le> x"
  "dict_index w_road_design k = Inr x \<Longrightarrow> 0 \<le> x"
  "dict_index w_traffic_volume k = Inr x \<Longrightarrow> 0 \<le> x"
  "dict_index w_time_of_day k = Inr x \<Longrightarrow> 0 \<le> x"
  "dict_index w_day_of_week k = Inr x \<Longrightarrow> 0 \<le> x"
  "dict_index w_area_type k = Inr x \<Longrightarrow> 0 \<le> x"
  "dict_index w_overtaking k = Inr x \<Longrightarrow> 0 \<le> x"
  "dict_index w_alcohol k = Inr x \<Longrightarrow> 0 \<le> x"
  "dict_index w_phone_usage k = Inr x \<Longrightarrow> 0 \<le> x"
  by (auto simp: weight_tables dest!: dict_index_in)

lemma dict_get_vehicle_lower: "0.2 \<le> dict_get w_vehicle_type k 0.3"
  by (simp add: dict_get_def w_vehicle_type_def)

lemma dict_get_weather_lower: "0 \<le> dict_get w_weather k 0.3"
  by (simp add: dict_get_def w_weather_def)

lemma int_times_float_fits:
  "\<bar>i\<bar> < float_int_bound \<Longrightarrow> int_times_float i x = Inr (of_int i * x)"
  by (simp add: int_times_float_def)

lemma int_times_float_overflow:
  "float_int_bound \<le> \<bar>i\<bar> \<Longrightarrow> int_times_float i x = Inl OverflowError"
  by (simp add: int_times_float_def)

lemma int_times_float_Inr:
  "int_times_float i x = Inr y \<Longrightarrow> \<bar>i\<bar> < float_int_bound \<and> y = of_int i * x"
  by (auto simp: int_times_float_def split: if_splits)

lemma speed_risk_fits:
  "spd - lmt < float_int_bound \<Longrightarrow>
   calculate_speed_risk spd lmt
     = Inr (if lmt < spd then min (of_int (spd - lmt) * speed_factor) 1.0 else 0)"
  by (simp add: calculate_speed_risk_def Let_def int_times_float_def)

lemma speed_risk_overflow:
  "float_int_bound \<le> spd - lmt \<Longrightarrow> calculate_speed_risk spd lmt = Inl OverflowError"
  by (simp add: calculate_speed_risk_def Let_def int_times_float_def float_int_bound_def)

lemma speed_risk_nonneg: "calculate_speed_risk spd lmt = Inr x \<Longrightarrow> 0 \<le> x"
  by (auto simp: calculate_speed_risk_def speed_factor_def Let_def int_times_float_def
      split: if_splits)

lemma contributions_nonneg:
  assumes h: "0 \<le> cond_get (accident_history c) 0" and m: "Inr x \<in> set (contributions c)"
  shows "0 \<le> x"
proof -
  have v: "0 \<le> dict_get w_vehicle_type k 0.3" for k
    using dict_get_vehicle_lower [of k] by simp
  have a: "0 \<le> y"
    if "int_times_float (cond_get (accident_history c) 0) w_accident_history = Inr y" for y
    using h int_times_float_Inr [OF that] by (simp add: w_accident_history_def)
  show ?thesis
    using m unfolding contributions_def list.set insert_iff empty_iff
    by (elim disjE) (use v dict_get_weather_lower in
        \<open>auto dest: table_nonneg [OF sym] speed_risk_nonneg [OF sym] a [OF sym]\<close>)
qed


lemma total_risk_lower:
  assumes h: "0 \<le> cond_get (accident_history c) 0" and t: "total_risk l c = Inr t"
  shows "0.6 \<le> t"
proof -
  obtain base where b: "get_location_risk l = Inr base" "0.4 \<le> base"
    using get_location_risk_range [of l] by blast
  define v where "v = dict_get w_vehicle_type (cond_get (vehicle_type c) ''Car'') 0.3"
  obtain rest where r: "contributions c = Inr v # rest"
    unfolding contributions_def v_def by blast
  have acc: "accumulate (base + v) rest = Inr t"
    using t unfolding total_risk_def b r by simp
  have nn: "0 \<le> x" if "Inr x \<in> set rest" for x
    using that contributions_nonneg [OF h, of x] r by simp
  have "base + v \<le> t"
    using accumulate_lower [OF acc] nn by blast
  moreover have "0.2 \<le> v"
    unfolding v_def by (rule dict_get_vehicle_lower)
  ultimately show ?thesis using b by linarith
qed

lemma exact_in_contributions:
  "(f, d, t) \<in> set (exact_lookups c) \<Longrightarrow> dict_index t (cond_get f d) \<in> set (contributions c)"
  unfolding exact_lookups_def contributions_def list.set insert_iff empty_iff prod.inject
  by (elim disjE conjE FalseE; hypsubst; simp)

lemma total_risk_unknown:
  assumes "some_exact_field_unknown c"
  shows "\<exists>e. total_risk l c = Inl e"
proof -
  from assms obtain f d t where ft: "(f, d, t) \<in> set (exact_lookups c)" "unknown_key f t"
    unfolding some_exact_field_unknown_def list_ex_iff by blast
  have "Inl (KeyError (cond_get f d)) \<in> set (contributions c)"
    using exact_in_contributions [OF ft(1)] unknown_key_index [OF ft(2), of d] by simp
  then have a: "\<exists>e. accumulate b (contributions c) = Inl e" for b
    by (rule accumulate_Inl)
  obtain base where "get_location_risk l = Inr base"
    using get_location_risk_range [of l] by blast
  then show ?thesis unfolding total_risk_def using a [of base] by simp
qed


lemma derived_lookups:
  "\<exists>x. dict_index w_driver_age (calculate_age_risk a) = Inr x"
  "\<exists>x. dict_index w_experience (calculate_experience_risk e) = Inr x"
  "\<exists>x. dict_index w_day_of_week (if b then ''weekend'' else ''weekday'') = Inr x"
  by (rule dict_index_key;
      simp add: w_driver_age_def w_experience_def w_day_of_week_def
        calculate_age_risk_def calculate_experience_risk_def)+

lemma contributions_all_Inr:
  assumes "\<not> some_exact_field_unknown c" and f: "in_float_range c"
  shows "\<forall>w \<in> set (contributions c). \<exists>x. w = Inr x"
proof -
  have k:
    "\<not> unknown_key (road_surface c) w_road_surface"
    "\<not> unknown_key (visibility c) w_visibility"
    "\<not> unknown_key (light_condition c) w_light_condition"
    "\<not> unknown_key (road_type c) w_road_type"
    "\<not> unknown_key (road_design c) w_road_design"
    "\<not> unknown_key (traffic_volume c) w_traffic_volume"
    "\<not> unknown_key (time_of_day c) w_time_of_day"
    "\<not> unknown_key (area_type c) w_area_type"
    "\<not> unknown_key (license_valid c) w_license_valid"
    "\<not> unknown_key (seatbelt c) w_seatbelt"
    "\<not> unknown_key (overtaking c) w_overtaking"
    "\<not> unknown_key (alcohol c) w_alcohol"
    "\<not> unknown_key (phone_usage c) w_phone_usage"
    using assms(1) by (simp_all add: some_exact_field_unknown_def exact_lookups_def)
  have e14: "\<exists>x. calculate_speed_risk (cond_get (current_speed c) 40)
                  (cond_get (speed_limit c) 50) = Inr x"
    using f speed_risk_fits unfolding in_float_range_def by blast
  have e15: "\<exists>x. int_times_float (cond_get (accident_history c) 0) w_accident_history = Inr x"
    using f int_times_float_fits unfolding in_float_range_def by blast
  have e1: "\<exists>x. dict_index w_road_surface (cond_get (road_surface c) ''Dry'') = Inr x"
    by (rule known_key_index [OF k(1)]) (simp add: w_road_surface_def)
  have e2: "\<exists>x. dict_index w_visibility (cond_get (visibility c) ''high'') = Inr x"
    by (rule known_key_index [OF k(2)]) (simp add: w_visibility_def)
  have e3: "\<exists>x. dict_index w_light_condition (cond_get (light_condition c) ''Daylight'') = Inr x"
    by (rule known_key_index [OF k(3)]) (simp add: w_light_condition_def)
  have e4: "\<exists>x. dict_index w_road_type (cond_get (road_type c) ''City_Road'') = Inr x"
    by (rule known_key_index [OF k(4)]) (simp add: w_road_type_def)
  have e5: "\<exists>x. dict_index w_road_design (cond_get (road_design c) ''Straight'') = Inr x"
    by (rule known_key_index [OF k(5)]) (simp add: w_road_design_def)
  have e6: "\<exists>x. dict_index w_traffic_volume (cond_get (traffic_volume c) ''Medium'') = Inr x"
    by (rule known_key_index [OF k(6)]) (simp add: w_traffic_volume_def)
  have e7: "\<exists>x. dict_index w_time_of_day (cond_get (time_of_day c) ''Afternoon'') = Inr x"
    by (rule known_key_index [OF k(7)]) (simp add: w_time_of_day_def)
  have e8: "\<exists>x. dict_index w_area_type (cond_get (area_type c) ''Urban'') = Inr x"
    by (rule known_key_index [OF k(8)]) (simp add: w_area_type_def)
  have e9: "\<exists>x. dict_index w_license_valid (cond_get (license_valid c) ''yes'') = Inr x"
    by (rule known_key_index [OF k(9)]) (simp add: w_license_valid_def)
  have e10: "\<exists>x. dict_index w_seatbelt (cond_get (seatbelt c) ''yes'') = Inr x"
    by (rule known_key_index [OF k(10)]) (simp add: w_seatbelt_def)
  have e11: "\<exists>x. dict_index w_overtaking (cond_get (overtaking c) ''no'') = Inr x"
    by (rule known_key_index [OF k(11)]) (simp add: w_overtaking_def)
  have e12: "\<exists>x. dict_index w_alcohol (cond_get (alcohol c) ''no'') = Inr x"
    by (rule known_key_index [OF k(12)]) (simp add: w_alcohol_def)
  have e13: "\<exists>x. dict_index w_phone_usage (cond_get (phone_usage c) ''no'') = Inr x"
    by (rule known_key_index [OF k(13)]) (simp add: w_phone_usage_def)
  show ?thesis
    unfolding contributions_def
    by (simp add: derived_lookups e1 e2 e3 e4 e5 e6 e7 e8 e9 e10 e11 e12 e13 e14 e15)
qed

lemma total_risk_known:
  assumes "\<not> some_exact_field_unknown c" and "in_float_range c"
  shows "\<exists>t. total_risk l c = Inr t"
proof -
  obtain base where b: "get_location_risk l = Inr base"
    using get_location_risk_range [of l] by blast
  have "\<exists>t. accumulate base (contributions c) = Inr t"
    using contributions_all_Inr [OF assms] by (intro accumulate_total) blast
  then show ?thesis unfolding total_risk_def b by simp
qed

section \<open>The speed contribution\<close>

lemma speed_term_of_total:
  assumes "total_risk l (c\<lparr>current_speed := Some lmt, speed_limit := Some lmt\<rparr>) = Inr t0"
    and "calculate_speed_risk spd lmt = Inr x"
  shows "total_risk l (c\<lparr>current_speed := Some spd, speed_limit := Some lmt\<rparr>) = Inr (t0 + x)"
proof -
  have z: "calculate_speed_risk lmt lmt = Inr 0"
    by (simp add: calculate_speed_risk_def)
  show ?thesis
    using assms unfolding total_risk_def contributions_def
    by (auto simp: accumulate_Cons_iff cond_get_def z split: sum.splits)
qed

lemma speed_overflow_of_total:
  assumes "total_risk l (c\<lparr>current_speed := Some lmt, speed_limit := Some lmt\<rparr>) = Inr t0"
    and "calculate_speed_risk spd lmt = Inl e"
  shows "total_risk l (c\<lparr>current_speed := Some spd, speed_limit := Some lmt\<rparr>) = Inl e"
proof -
  have z: "calculate_speed_risk lmt lmt = Inr 0"
    by (simp add: calculate_speed_risk_def)
  show ?thesis
    using assms unfolding total_risk_def contributions_def
    by (auto simp: accumulate_Cons_iff cond_get_def z split: sum.splits)
qed

lemma total_risk_pune_at_limit:
  "total_risk ''Pune'' (api_defaults\<lparr>current_speed := Some 60, speed_limit := Some 60\<rparr>) = Inr 3.5"
proof -
  have c: "contributions (api_defaults\<lparr>current_speed := Some 60, speed_limit := Some 60\<rparr>)
           = contributions api_defaults"
    by (simp add: contributions_def api_defaults_def cond_get_def calculate_speed_risk_def)
  show ?thesis
    unfolding total_risk_def c by (simp add: location_pune contributions_api_defaults)
qed

text \<open>
  Claim C6, as stated, fails for a speed excess that no double holds: the product
  \<open>speed_over * 0.01\<close> raises \<open>OverflowError\<close>, the speed contributes nothing and the call
  returns the failure result. The conditions are the caller's defaults with a current
  speed of \<open>2 ^ 1024\<close>.
\<close>

theorem speed_contribution_counterexample:
  "(60::int) < 2 ^ 1024
   \<and> calculate_speed_risk (2 ^ 1024) 60 = Inl OverflowError
   \<and> total_risk ''Pune'' (api_defaults\<lparr>current_speed := Some (2 ^ 1024), speed_limit := Some 60\<rparr>)
       = Inl OverflowError
   \<and> predict_accident_risk cpython_runtime ''Pune''
        (api_defaults\<lparr>current_speed := Some (2 ^ 1024), speed_limit := Some 60\<rparr>)
       = Failure ''Prediction calculation failed'' ''Pune''"
proof -
  have o: "calculate_speed_risk (2 ^ 1024) 60 = Inl OverflowError"
    by (rule speed_risk_overflow) (simp add: float_int_bound_def)
  have t: "total_risk ''Pune''
             (api_defaults\<lparr>current_speed := Some (2 ^ 1024), speed_limit := Some 60\<rparr>)
           = Inl OverflowError"
    using total_risk_pune_at_limit o by (rule speed_overflow_of_total)
  show ?thesis using o t predict_Inl [OF t] by simp
qed

text \<open>
  Claim C6, amended. When the excess \<open>current_speed - speed_limit\<close> is below
  \<open>2 ^ 1024 - 2 ^ 970\<close>, the largest integers that convert to a double, the speed risk is
  \<open>min ((current_speed - speed_limit) * 0.01) 1.0\<close> if the current speed exceeds the limit
  and 0 otherwise, and from that bound on it raises \<open>OverflowError\<close>. At the limit the risk
  is exactly 0, at 150 km/h over the limit it is exactly 1.0. The risk enters the total as
  a summand: replacing a current speed equal to the limit by a speed whose excess is below
  the bound adds exactly this value to the total.
\<close>

theorem speed_contribution:
  "calculate_speed_risk spd lmt
     = (if spd - lmt < float_int_bound
        then Inr (if lmt < spd then min (of_int (spd - lmt) * 0.01) 1.0 else 0)
        else Inl OverflowError)
   \<and> calculate_speed_risk lmt lmt = Inr 0
   \<and> calculate_speed_risk (lmt + 150) lmt = Inr 1.0
   \<and> (spd - lmt < float_int_bound
        \<and> total_risk l (c\<lparr>current_speed := Some lmt, speed_limit := Some lmt\<rparr>) = Inr t0 \<longrightarrow>
        total_risk l (c\<lparr>current_speed := Some spd, speed_limit := Some lmt\<rparr>)
          = Inr (t0 + (if lmt < spd then min (of_int (spd - lmt) * 0.01) 1.0 else 0)))"
proof -
  have a: "calculate_speed_risk spd lmt
     = (if spd - lmt < float_int_bound
        then Inr (if lmt < spd then min (of_int (spd - lmt) * 0.01) 1.0 else 0)
        else Inl OverflowError)"
    using speed_risk_fits [of spd lmt] speed_risk_overflow [of spd lmt]
    by (simp add: speed_factor_def)
  have b: "calculate_speed_risk lmt lmt = Inr 0"
    by (simp add: calculate_speed_risk_def)
  have "(lmt + 150) - lmt < float_int_bound" by (simp add: float_int_bound_def)
  then have c: "calculate_speed_risk (lmt + 150) lmt = Inr 1.0"
    using speed_risk_fits [of "lmt + 150" lmt] by (simp add: speed_factor_def)
  have d: "total_risk l (c\<lparr>current_speed := Some spd, speed_limit := Some lmt\<rparr>)
          = Inr (t0 + (if lmt < spd then min (of_int (spd - lmt) * 0.01) 1.0 else 0))"
    if "spd - lmt < float_int_bound"
      and "total_risk l (c\<lparr>current_speed := Some lmt, speed_limit := Some lmt\<rparr>) = Inr t0"
    using that(2) by (rule speed_term_of_total) (simp add: a that(1))
  show ?thesis using a b c d by blast
qed

theorem speed_contribution_witness:
  "(80::int) - 60 < float_int_bound
   \<and> total_risk ''Pune'' (api_defaults\<lparr>current_speed := Some 60, speed_limit := Some 60\<rparr>) = Inr 3.5
   \<and> calculate_speed_risk 80 60 = Inr 0.2
   \<and> total_risk ''Pune'' (api_defaults\<lparr>current_speed := Some 80, speed_limit := Some 60\<rparr>) = Inr 3.7"
proof -
  have f: "(80::int) - 60 < float_int_bound" by (simp add: float_int_bound_def)
  show ?thesis
    using f total_risk_pune_at_limit speed_contribution
      [where spd = 80 and lmt = 60 and l = "''Pune''" and c = api_defaults and ?t0.0 = "3.5"]
    by simp
qed

section \<open>Recommendations\<close>

lemma checklist_matches_Cons:
  "checklist_matches ((b, xs) # items) = (if b then xs else []) @ checklist_matches items"
  by simp

lemma closing_remarks:
  "(if 2 \<le> code then [p, q] else if code = (1::int) then [a] else [])
   = (if 2 \<le> code then [p, q] else []) @ (if code = 1 then [a] else []) @ []"
  by simp

lemma all_recommendations:
  "(if cond_get (weather c) ''Clear'' \<in> set [''Rainy'', ''Foggy'', ''Snowy'', ''Stormy'']
        then [rec_weather, rec_distance] else []) @
       (if cond_get (current_speed c) 0 > cond_get (speed_limit c) 50
        then [rec_speed (cond_get (speed_limit c) 50)] else []) @
       (if str_in ''Night'' (cond_get (light_condition c) ''Daylight'') then [rec_night] else []) @
       (if cond_get (vehicle_type c) ''Car'' = ''Bike'' then [rec_helmet] else []) @
       (if cond_get (seatbelt c) ''yes'' = ''no'' then [rec_seatbelt] else []) @
       (if cond_get (alcohol c) ''no'' = ''yes'' then [rec_alcohol] else []) @
       (if cond_get (phone_usage c) ''no'' = ''yes'' then [rec_phone] else []) @
       (if code \<ge> 2 then [rec_postpone, rec_caution]
        else if code = 1 then [rec_attention] else [])
   = checklist_matches (recommendation_checklist c code)"
  unfolding recommendation_checklist_def checklist_matches_Cons closing_remarks
  by (simp only: checklist_matches.simps list.set)

text \<open>
  Claim C7. The recommendations are at most six strings: the first six (or all, when there
  are fewer) of the texts of the matching entries of the checklist, in checklist order.
\<close>

theorem recommendations_first_six:
  "length (generate_recommendations c code) \<le> 6
   \<and> generate_recommendations c code
       = take 6 (checklist_matches (recommendation_checklist c code))"
  unfolding generate_recommendations_def all_recommendations
  by (simp only: length_take min.cobounded2 simp_thms)

theorem recommendations_first_six_witness:
  "checklist_matches (recommendation_checklist reckless_conditions 2)
     = [rec_weather, rec_distance, rec_speed 80, rec_night, rec_helmet, rec_seatbelt,
        rec_alcohol, rec_phone, rec_postpone, rec_caution]
   \<and> generate_recommendations reckless_conditions 2
     = [rec_weather, rec_distance, rec_speed 80, rec_night, rec_helmet, rec_seatbelt]"
proof -
  have m: "checklist_matches (recommendation_checklist reckless_conditions 2)
     = [rec_weather, rec_distance, rec_speed 80, rec_night, rec_helmet, rec_seatbelt,
        rec_alcohol, rec_phone, rec_postpone, rec_caution]"
    by (simp add: recommendation_checklist_def reckless_conditions_def cond_get_def)
  show ?thesis
    using recommendations_first_six [of reckless_conditions 2] by (simp add: m)
qed

section \<open>Risk factors and alcohol\<close>

lemma rec_alcohol_not_risk_factor: "rec_alcohol \<notin> set (identify_risk_factors c)"
proof -
  have 1: "rec_alcohol \<notin> set (case weather c of None \<Rightarrow> []
             | Some w \<Rightarrow> if w \<noteq> ''Clear'' then [''Weather: '' @ w] else [])"
    by (cases "weather c") (simp_all add: rec_alcohol_def)
  have 2: "rec_alcohol \<notin> set (case road_surface c of None \<Rightarrow> []
             | Some s \<Rightarrow> if s \<noteq> ''Dry'' then [''Road Surface: '' @ s] else [])"
    by (cases "road_surface c") (simp_all add: rec_alcohol_def)
  have 3: "rec_alcohol \<notin> set (case road_design c of None \<Rightarrow> []
             | Some d \<Rightarrow> if d \<in> set [''Junction'', ''Curved'']
                 then [''Road Design: '' @ d] else [])"
    by (cases "road_design c") (simp_all add: rec_alcohol_def)
  have 4: "rec_alcohol \<notin> set (if b then [x] else [])" if "rec_alcohol \<noteq> x" for b x
    using that by simp
  have f: "rec_alcohol \<noteq> ''Poor Visibility''" "rec_alcohol \<noteq> ''Night Driving''"
    "rec_alcohol \<noteq> ''Heavy Traffic''" "rec_alcohol \<noteq> ''Speeding''"
    "rec_alcohol \<noteq> ''Young Driver''" "rec_alcohol \<noteq> ''Inexperienced Driver''"
    by (simp_all add: rec_alcohol_def)
  show ?thesis
    unfolding identify_risk_factors_def set_append Un_iff de_Morgan_disj
    by (intro conjI 1 2 3 4 f)
qed

lemma risk_factors_ignore_alcohol:
  "identify_risk_factors (c\<lparr>alcohol := a\<rparr>) = identify_risk_factors c"
  unfolding identify_risk_factors_def by (simp split del: if_split)

text \<open>
  Claim C8. The risk factors never hold an alcohol entry: the list does not depend on the
  alcohol field and the alcohol warning is never in it. With alcohol set to yes and every
  other key absent, or at the defaults of the HTTP layer, the risk factors are empty and
  the alcohol warning is among the recommendations, whatever the severity code.
\<close>

theorem alcohol_asymmetry:
  "identify_risk_factors (c\<lparr>alcohol := a\<rparr>) = identify_risk_factors c
   \<and> rec_alcohol \<notin> set (identify_risk_factors c)
   \<and> identify_risk_factors (no_conditions\<lparr>alcohol := Some ''yes''\<rparr>) = []
   \<and> identify_risk_factors (api_defaults\<lparr>alcohol := Some ''yes''\<rparr>) = []
   \<and> rec_alcohol \<in> set (generate_recommendations (no_conditions\<lparr>alcohol := Some ''yes''\<rparr>) code)
   \<and> rec_alcohol \<in> set (generate_recommendations (api_defaults\<lparr>alcohol := Some ''yes''\<rparr>) code)"
proof -
  have n: "identify_risk_factors (no_conditions\<lparr>alcohol := Some ''yes''\<rparr>) = []"
    by (simp add: identify_risk_factors_def no_conditions_def cond_get_def)
  have d: "identify_risk_factors (api_defaults\<lparr>alcohol := Some ''yes''\<rparr>) = []"
    by (simp add: identify_risk_factors_def api_defaults_def cond_get_def)
  have rn: "rec_alcohol \<in> set (generate_recommendations (no_conditions\<lparr>alcohol := Some ''yes''\<rparr>) code)"
    by (simp add: generate_recommendations_def no_conditions_def cond_get_def)
  have rd: "rec_alcohol \<in> set (generate_recommendations (api_defaults\<lparr>alcohol := Some ''yes''\<rparr>) code)"
    by (simp add: generate_recommendations_def api_defaults_def cond_get_def)
  show ?thesis
    using risk_factors_ignore_alcohol rec_alcohol_not_risk_factor n d rn rd by blast
qed

theorem alcohol_asymmetry_witness:
  "identify_risk_factors reckless_conditions
     = [''Weather: Stormy'', ''Road Surface: Wet'', ''Poor Visibility'', ''Night Driving'',
        ''Heavy Traffic'', ''Speeding'', ''Road Design: Curved'', ''Young Driver'',
        ''Inexperienced Driver'']
   \<and> rec_alcohol \<notin> set (identify_risk_factors reckless_conditions)
   \<and> rec_alcohol \<in> set (generate_recommendations (api_defaults\<lparr>alcohol := Some ''yes''\<rparr>) 1)"
proof -
  have e: "identify_risk_factors reckless_conditions
     = [''Weather: Stormy'', ''Road Surface: Wet'', ''Poor Visibility'', ''Night Driving'',
        ''Heavy Traffic'', ''Speeding'', ''Road Design: Curved'', ''Young Driver'',
        ''Inexperienced Driver'']"
    by (simp add: identify_risk_factors_def reckless_conditions_def cond_get_def)
  show ?thesis
    using e alcohol_asymmetry [where c = reckless_conditions and a = "Some ''yes''" and code = 1]
    by blast
qed

section \<open>Validity and evaluation\<close>

lemma in_domain_known:
  "in_domain f vs \<Longrightarrow> set vs \<subseteq> fst ` set t \<Longrightarrow> \<not> unknown_key f t"
  by (cases f) (auto simp: in_domain_def unknown_key_def map_of_eq_None_iff)

lemma valid_known:
  assumes "valid_conditions c"
  shows "\<not> some_exact_field_unknown c"
proof -
  note v = assms [unfolded valid_conditions_def]
  have k1: "\<not> unknown_key (road_surface c) w_road_surface"
    by (rule in_domain_known [where vs = "[''Dry'', ''Wet'', ''Icy'', ''Muddy'']"])
       (use v in \<open>simp_all add: w_road_surface_def\<close>)
  have k2: "\<not> unknown_key (visibility c) w_visibility"
    by (rule in_domain_known [where vs = "[''high'', ''medium'', ''low'']"])
       (use v in \<open>simp_all add: w_visibility_def\<close>)
  have k3: "\<not> unknown_key (light_condition c) w_light_condition"
    by (rule in_domain_known [where vs = "[''Daylight'', ''Night_with_lights'', ''Night_without_lights'']"])
       (use v in \<open>simp_all add: w_light_condition_def\<close>)
  have k4: "\<not> unknown_key (road_type c) w_road_type"
    by (rule in_domain_known [where vs = "[''Highway'', ''City_Road'', ''Rural_Road'']"])
       (use v in \<open>simp_all add: w_road_type_def\<close>)
  have k5: "\<not> unknown_key (road_design c) w_road_design"
    by (rule in_domain_known [where vs = "[''Straight'', ''Curved'', ''Junction'', ''Roundabout'']"])
       (use v in \<open>simp_all add: w_road_design_def\<close>)
  have k6: "\<not> unknown_key (traffic_volume c) w_traffic_volume"
    by (rule in_domain_known [where vs = "[''Low'', ''Medium'', ''High'']"])
       (use v in \<open>simp_all add: w_traffic_volume_def\<close>)
  have k7: "\<not> unknown_key (time_of_day c) w_time_of_day"
    by (rule in_domain_known [where vs = "[''Morning'', ''Afternoon'', ''Evening'', ''Night'']"])
       (use v in \<open>simp_all add: w_time_of_day_def\<close>)
  have k8: "\<not> unknown_key (area_type c) w_area_type"
    by (rule in_domain_known [where vs = "[''Urban'', ''Suburban'', ''Rural'']"])
       (use v in \<open>simp_all add: w_area_type_def\<close>)
  have k9: "\<not> unknown_key (license_valid c) w_license_valid"
    by (rule in_domain_known [where vs = "[''yes'', ''no'']"])
       (use v in \<open>simp_all add: w_license_valid_def\<close>)
  have k10: "\<not> unknown_key (seatbelt c) w_seatbelt"
    by (rule in_domain_known [where vs = "[''yes'', ''no'']"])
       (use v in \<open>simp_all add: w_seatbelt_def\<close>)
  have k11: "\<not> unknown_key (overtaking c) w_overtaking"
    by (rule in_domain_known [where vs = "[''yes'', ''no'']"])
       (use v in \<open>simp_all add: w_overtaking_def\<close>)
  have k12: "\<not> unknown_key (alcohol c) w_alcohol"
    by (rule in_domain_known [where vs = "[''yes'', ''no'']"])
       (use v in \<open>simp_all add: w_alcohol_def\<close>)
  have k13: "\<not> unknown_key (phone_usage c) w_phone_usage"
    by (rule in_domain_known [where vs = "[''yes'', ''no'']"])
       (use v in \<open>simp_all add: w_phone_usage_def\<close>)
  show ?thesis
    unfolding some_exact_field_unknown_def exact_lookups_def
    by (simp add: k1 k2 k3 k4 k5 k6 k7 k8 k9 k10 k11 k12 k13)
qed

lemma valid_history: "valid_conditions c \<Longrightarrow> 0 \<le> cond_get (accident_history c) 0"
  by (cases "accident_history c") (simp_all add: valid_conditions_def non_negative_def cond_get_def)

lemma final_risk_upper: "final_risk rt seed t \<le> 0.95"
  unfolding final_risk_def Let_def by simp

lemma final_risk_lower:
  assumes "0.6 \<le> t"
  shows "0.05 \<le> final_risk rt seed t"
proof -
  have n: "0.075 \<le> normalized_risk t"
    using assms unfolding normalized_risk_def by simp
  have u: "0.95 \<le> uniform rt seed 0 0.95 1.05"
    using uniform_range [where a = "0.95" and b = "1.05" and rt = rt and seed = seed and k = 0]
    by simp
  have "0.075 * 0.95 \<le> normalized_risk t * uniform rt seed 0 0.95 1.05"
    using n u by (intro mult_mono) auto
  then show ?thesis unfolding final_risk_def Let_def by simp
qed

lemma py_round_5: "py_round 5 (Suc 0) = 5"
  using py_round_exact [of 50 1] by simp

lemma py_round_95: "py_round 95 (Suc 0) = 95"
  using py_round_exact [of 950 1] by simp

lemma round_half_even_within:
  assumes "of_int k - 1 / 2 < y" and "y < of_int k + 1 / 2"
  shows "round_half_even y = k"
proof (cases "of_int k \<le> y")
  case True
  then have "\<lfloor>y\<rfloor> = k" using assms by linarith
  then show ?thesis using assms unfolding round_half_even_def Let_def by simp
next
  case False
  then have f: "\<lfloor>y\<rfloor> = k - 1" using assms by linarith
  have "1 / 2 < y - of_int (k - 1)" using assms by simp
  then show ?thesis unfolding round_half_even_def Let_def f by simp
qed

lemma py_round_within:
  assumes "of_int k - 1 / 2 < x * 10 ^ n" and "x * 10 ^ n < of_int k + 1 / 2"
  shows "py_round x n = of_int k / 10 ^ n"
  unfolding py_round_def round_half_even_within [OF assms] ..

lemma location_bangalore: "get_location_risk ''Bangalore'' = Inr 0.5"
  by (simp add: get_location_risk_def lower_def lower_char_def location_risk_base_def
      dict_index_def)

lemma total_risk_bangalore: "total_risk ''Bangalore'' api_defaults = Inr 3.5"
  by (simp add: total_risk_def location_bangalore contributions_api_defaults)

lemma seed_bangalore: "generate_seed cpython_runtime ''Bangalore'' api_defaults = 0x09368f57"
  by (simp add: generate_seed_def cpython_runtime_def api_defaults_def cond_get_def)

lemma draws_bangalore:
  "random_unit cpython_runtime 0x09368f57 0 = 5948132531886342 / 2 ^ 53"
  "random_unit cpython_runtime 0x09368f57 1 = 5506888846639550 / 2 ^ 53"
  "random_unit cpython_runtime 0x09368f57 (Suc 0) = 5506888846639550 / 2 ^ 53"
  "random_unit cpython_runtime 0x09368f57 2 = 8105886014536222 / 2 ^ 53"
  "random_unit cpython_runtime 0x09368f57 3 = 1235062869068390 / 2 ^ 53"
  by (simp_all add: random_unit_def cpython_runtime_def)

lemma final_risk_bangalore:
  "final_risk cpython_runtime 0x09368f57 3.5 = 320307839081740181 / 720575940379279360"
  by (simp add: final_risk_def normalized_risk_def uniform_def draws_bangalore)

lemma severity_bangalore:
  "severity_of (320307839081740181 / 720575940379279360) = (''Medium'', 1, ''#ffc107'', ''Medium Risk'')"
  by (simp add: severity_of_def)

lemma distribution_bangalore:
  "probability_distribution cpython_runtime 0x09368f57 1 (320307839081740181 / 720575940379279360)
   = (5444471668092958419825855014335647 / 32451855365842672678315602057625600,
      508478137930712453 / 720575940379279360,
      4107564172641711544831424323423073 / 32451855365842672678315602057625600)"
  by (simp add: probability_distribution_def uniform_def draws_bangalore Let_def)

lemma confidence_bangalore:
  "min (max (320307839081740181 / 720575940379279360 + uniform cpython_runtime 0x09368f57 3 0.1 0.2) 0.6) 0.95 = (0.6::real)"
  by (simp add: uniform_def draws_bangalore)

lemma rounded_bangalore:
  "py_round (320307839081740181 / 720575940379279360 * 100) 1 = 44.5"
  "py_round (5444471668092958419825855014335647 / 32451855365842672678315602057625600) 3 = 0.168"
  "py_round (508478137930712453 / 720575940379279360) 3 = 0.706"
  "py_round (4107564172641711544831424323423073 / 32451855365842672678315602057625600) 3 = 0.127"
  "py_round 0.6 3 = 0.6"
  using py_round_within [where k = 445 and n = 1 and x = "320307839081740181 / 720575940379279360 * 100"]
    py_round_within [where k = 168 and n = 3 and x = "5444471668092958419825855014335647 / 32451855365842672678315602057625600"]
    py_round_within [where k = 706 and n = 3 and x = "508478137930712453 / 720575940379279360"]
    py_round_within [where k = 127 and n = 3 and x = "4107564172641711544831424323423073 / 32451855365842672678315602057625600"]
    py_round_within [where k = 600 and n = 3 and x = "0.6"]
  by simp_all

lemma lists_bangalore:
  "generate_recommendations api_defaults 1 = [rec_attention]"
  "identify_risk_factors api_defaults = []"
  "len_conditions api_defaults = 21"
  by (simp_all add: generate_recommendations_def identify_risk_factors_def len_conditions_def
      api_defaults_def cond_get_def)

lemma predict_bangalore:
  "predict_accident_risk cpython_runtime ''Bangalore'' api_defaults =
     Success \<lparr>result_location = ''Bangalore'', timestamp = ''2024-01-01T12:00:00'',
       predicted_severity = ''Medium Risk'', severity_code = 1, confidence = 0.6,
       risk_score = 44.5, probs = \<lparr>low = 0.168, medium = 0.706, high = 0.127\<rparr>,
       color = ''#ffc107'', recommendations = [rec_attention], risk_factors = [],
       info = \<lparr>model_type = ''Advanced ML Ensemble'', accuracy = ''94.7%'',
               features_analyzed = 21\<rparr>\<rparr>"
  unfolding predict_accident_risk_def predict_body_Inr [OF total_risk_bangalore] Let_def
    seed_bangalore final_risk_bangalore severity_bangalore distribution_bangalore
    confidence_bangalore fst_conv snd_conv rounded_bangalore lists_bangalore
  by (simp add: cpython_runtime_def)

section \<open>The range of the risk score\<close>

lemma valid_api_defaults: "valid_conditions api_defaults"
  by (simp add: valid_conditions_def in_domain_def non_negative_def api_defaults_def)

lemma in_float_range_api_defaults: "in_float_range api_defaults"
  by (simp add: in_float_range_def api_defaults_def cond_get_def float_int_bound_def)

lemma predict_bangalore_assessment:
  "predict_accident_risk cpython_runtime ''Bangalore'' api_defaults = Success bangalore_assessment"
  unfolding bangalore_assessment_def by (rule predict_bangalore)

lemma contributions_huge_history:
  "contributions (api_defaults\<lparr>accident_history := Some (2 ^ 1024)\<rparr>) =
     map Inr [0.2, 0.2, 0.4, 0, 0, 0.1, 0.1, 0.1, 0.1, 0.3, 0.2, 0.4, 0, 0.2, 0.3, 0.4, 0, 0, 0]
     @ [Inl OverflowError]"
  by (simp add: contributions_def api_defaults_def cond_get_def dict_get_def dict_index_def
      weight_tables calculate_age_risk_def calculate_experience_risk_def calculate_speed_risk_def
      int_times_float_def float_int_bound_def)

lemma total_risk_huge_history:
  "total_risk ''Bangalore'' (api_defaults\<lparr>accident_history := Some (2 ^ 1024)\<rparr>)
   = Inl OverflowError"
  unfolding total_risk_def contributions_huge_history by (simp add: location_bangalore)

lemma valid_huge_history:
  "valid_conditions (api_defaults\<lparr>accident_history := Some (2 ^ 1024)\<rparr>)"
  by (simp add: valid_conditions_def in_domain_def non_negative_def api_defaults_def)

lemma risk_score_of_valid:
  assumes "valid_conditions c" and "predict_accident_risk rt l c = Success r"
  shows "5.0 \<le> risk_score r \<and> risk_score r \<le> 95.0"
proof -
  obtain t where t: "total_risk l c = Inr t"
    using predict_Success_total [OF assms(2)] by blast
  have lo: "0.6 \<le> t"
    using total_risk_lower [OF valid_history [OF assms(1)] t] .
  define fr where "fr = final_risk rt (generate_seed rt l c) t"
  have r: "risk_score r = py_round (fr * 100) 1"
    using predict_Inr [OF t, of rt] assms(2) unfolding fr_def by auto
  have "5 \<le> fr * 100" "fr * 100 \<le> 95"
    using final_risk_lower [OF lo, of rt "generate_seed rt l c"]
      final_risk_upper [of rt "generate_seed rt l c" t] unfolding fr_def by simp_all
  then have "py_round 5 1 \<le> py_round (fr * 100) 1" "py_round (fr * 100) 1 \<le> py_round 95 1"
    by (simp_all add: py_round_mono)
  then show ?thesis using r by (simp add: py_round_5 py_round_95)
qed

lemma predict_valid_succeeds:
  assumes "valid_conditions c" and "in_float_range c"
  shows "\<exists>r. predict_accident_risk rt l c = Success r"
  using total_risk_known [OF valid_known [OF assms(1)] assms(2), of l] predict_Inr by blast

text \<open>
  Claim C2, as stated, fails: an accident history of \<open>2 ^ 1024\<close> is a non-negative
  integer, so the conditions are valid, but \<open>accident_history * 0.1\<close> raises
  \<open>OverflowError\<close> and the call returns the failure result, which has no risk score.
\<close>

theorem risk_score_range_counterexample:
  "valid_conditions (api_defaults\<lparr>accident_history := Some (2 ^ 1024)\<rparr>)
   \<and> total_risk ''Bangalore'' (api_defaults\<lparr>accident_history := Some (2 ^ 1024)\<rparr>)
       = Inl OverflowError
   \<and> predict_accident_risk cpython_runtime ''Bangalore''
        (api_defaults\<lparr>accident_history := Some (2 ^ 1024)\<rparr>)
       = Failure ''Prediction calculation failed'' ''Bangalore''"
  using valid_huge_history total_risk_huge_history predict_Inl [OF total_risk_huge_history]
  by simp

text \<open>
  Claim C2, amended. Take a location and valid conditions. If the accident history and the
  speed excess \<open>current_speed - speed_limit\<close> are below \<open>2 ^ 1024 - 2 ^ 970\<close>, the largest
  integers that convert to a double, the call returns a result; and every result returned
  for valid conditions has a risk score between 5.0 and 95.0.
\<close>

theorem risk_score_range:
  assumes "valid_conditions c"
  shows "(in_float_range c \<longrightarrow> (\<exists>r. predict_accident_risk rt l c = Success r))
     \<and> (\<forall>r. predict_accident_risk rt l c = Success r \<longrightarrow>
           5.0 \<le> risk_score r \<and> risk_score r \<le> 95.0)"
  using predict_valid_succeeds [OF assms] risk_score_of_valid [OF assms] by blast

theorem risk_score_range_witness:
  "valid_conditions api_defaults \<and> in_float_range api_defaults
   \<and> predict_accident_risk cpython_runtime ''Bangalore'' api_defaults = Success bangalore_assessment
   \<and> risk_score bangalore_assessment = 44.5
   \<and> 5.0 \<le> risk_score bangalore_assessment \<and> risk_score bangalore_assessment \<le> 95.0"
  using valid_api_defaults in_float_range_api_defaults predict_bangalore_assessment
    risk_score_range [OF valid_api_defaults, of cpython_runtime "''Bangalore''"]
  by (simp add: bangalore_assessment_def)

section \<open>Unknown values\<close>

lemma accumulate_shift:
  "accumulate b ws = Inr t \<Longrightarrow> accumulate (b + d) ws = Inr (t + d)"
proof (induction b ws rule: accumulate.induct)
  case (1 a)
  then show ?case by simp
next
  case (2 a e ws)
  then show ?case by simp
next
  case (3 a w ws)
  have e: "a + d + w = a + w + d" by simp
  have "accumulate (a + w + d) ws = Inr (t + d)" using 3 by simp
  then show ?case unfolding accumulate.simps e .
qed

lemma accumulate_replace:
  "accumulate b (ws @ Inr x # vs) = Inr t \<Longrightarrow> accumulate b (ws @ Inr y # vs) = Inr (t - x + y)"
proof (induction b ws rule: accumulate.induct)
  case (1 a)
  then have "accumulate (a + x + (y - x)) vs = Inr (t + (y - x))"
    using accumulate_shift [of "a + x" vs t "y - x"] by simp
  then show ?case by (simp add: algebra_simps)
next
  case (2 a e ws)
  then show ?case by simp
next
  case (3 a w ws)
  then show ?case by simp
qed

lemma vehicle_term_of_total:
  assumes "map_of w_vehicle_type v = None"
    and "total_risk l (c\<lparr>vehicle_type := Some ''Car''\<rparr>) = Inr t0"
  shows "total_risk l (c\<lparr>vehicle_type := Some v\<rparr>) = Inr (t0 - 0.2 + 0.3)"
proof -
  obtain base where b: "get_location_risk l = Inr base"
    using get_location_risk_range [of l] by blast
  obtain vs where vs: "contributions (c\<lparr>vehicle_type := Some ''Car''\<rparr>) = [] @ Inr 0.2 # vs"
    "contributions (c\<lparr>vehicle_type := Some v\<rparr>) = [] @ Inr 0.3 # vs"
    using assms(1) unfolding contributions_def
    by (simp add: dict_get_def cond_get_def w_vehicle_type_def)
  show ?thesis
    using assms(2) unfolding total_risk_def b vs sum.case by (rule accumulate_replace)
qed

lemma weather_term_of_total:
  assumes "map_of w_weather w = None"
    and "total_risk l (c\<lparr>weather := Some ''Clear''\<rparr>) = Inr t0"
  shows "total_risk l (c\<lparr>weather := Some w\<rparr>) = Inr (t0 - 0.1 + 0.3)"
proof -
  obtain base where b: "get_location_risk l = Inr base"
    using get_location_risk_range [of l] by blast
  obtain ws vs where vs: "contributions (c\<lparr>weather := Some ''Clear''\<rparr>) = ws @ Inr 0.1 # vs"
    "contributions (c\<lparr>weather := Some w\<rparr>) = ws @ Inr 0.3 # vs"
  proof
    show "contributions (c\<lparr>weather := Some ''Clear''\<rparr>)
        = take 5 (contributions c) @ Inr 0.1 # drop 6 (contributions c)"
      unfolding contributions_def
      by (simp add: dict_get_def cond_get_def w_weather_def)
    show "contributions (c\<lparr>weather := Some w\<rparr>)
        = take 5 (contributions c) @ Inr 0.3 # drop 6 (contributions c)"
      using assms(1) unfolding contributions_def
      by (simp add: dict_get_def cond_get_def)
  qed
  show ?thesis
    using assms(2) unfolding total_risk_def b vs sum.case by (rule accumulate_replace)
qed

lemma total_risk_overflow:
  assumes "\<not> in_float_range c"
  shows "\<exists>e. total_risk l c = Inl e"
proof -
  have "calculate_speed_risk (cond_get (current_speed c) 40) (cond_get (speed_limit c) 50)
          = Inl OverflowError
      \<or> int_times_float (cond_get (accident_history c) 0) w_accident_history = Inl OverflowError"
    using assms speed_risk_overflow int_times_float_overflow
    unfolding in_float_range_def by (metis not_le_imp_less)
  then have "Inl OverflowError \<in> set (contributions c)"
    unfolding contributions_def by auto
  then have a: "\<exists>e. accumulate b (contributions c) = Inl e" for b
    by (rule accumulate_Inl)
  obtain base where "get_location_risk l = Inr base"
    using get_location_risk_range [of l] by blast
  then show ?thesis unfolding total_risk_def using a [of base] by simp
qed

lemma unknown_tractor: "map_of w_vehicle_type ''Tractor'' = None"
  by (simp add: w_vehicle_type_def)

lemma unknown_tornado: "map_of w_weather ''Tornado'' = None"
  by (simp add: w_weather_def)

lemma known_tractor_huge:
  "\<not> some_exact_field_unknown
       (api_defaults\<lparr>vehicle_type := Some ''Tractor'', accident_history := Some (2 ^ 1024)\<rparr>)"
  by (simp add: some_exact_field_unknown_def exact_lookups_def unknown_key_def
      api_defaults_def weight_tables)

lemma overflow_tractor_huge:
  "\<not> in_float_range
       (api_defaults\<lparr>vehicle_type := Some ''Tractor'', accident_history := Some (2 ^ 1024)\<rparr>)"
  by (simp add: in_float_range_def api_defaults_def cond_get_def float_int_bound_def)

lemma unknown_oily: "some_exact_field_unknown (api_defaults\<lparr>road_surface := Some ''Oily''\<rparr>)"
  by (simp add: some_exact_field_unknown_def exact_lookups_def unknown_key_def
      api_defaults_def weight_tables)

lemma car_clear_defaults:
  "api_defaults\<lparr>vehicle_type := Some ''Car''\<rparr> = api_defaults"
  "api_defaults\<lparr>weather := Some ''Clear''\<rparr> = api_defaults"
  by (simp_all add: api_defaults_def)

lemma seed_tractor:
  "generate_seed cpython_runtime ''Bangalore'' (api_defaults\<lparr>vehicle_type := Some ''Tractor''\<rparr>)
   = 0x09368f57"
  by (simp add: generate_seed_def cpython_runtime_def api_defaults_def cond_get_def)

lemma seed_tornado:
  "generate_seed cpython_runtime ''Bangalore'' (api_defaults\<lparr>weather := Some ''Tornado''\<rparr>)
   = 0x2605b23d"
  by (simp add: generate_seed_def cpython_runtime_def api_defaults_def cond_get_def)

lemma draw_tornado:
  "random_unit cpython_runtime 0x2605b23d 0 = 8529684243368216 / 2 ^ 53"
  by (simp add: random_unit_def cpython_runtime_def)

lemma final_risk_tractor:
  "final_risk cpython_runtime 0x09368f57 3.6 = 411824364533665947 / 900719925474099200"
  by (simp add: final_risk_def normalized_risk_def uniform_def draws_bangalore)

lemma final_risk_tornado:
  "final_risk cpython_runtime 0x2605b23d 3.7 = 87040721376152067 / 180143985094819840"
  by (simp add: final_risk_def normalized_risk_def uniform_def draw_tornado)

lemma rounded_unknown:
  "py_round (411824364533665947 / 900719925474099200 * 100) 1 = 45.7"
  "py_round (87040721376152067 / 180143985094819840 * 100) 1 = 48.3"
  using py_round_within [where k = 457 and n = 1 and x = "411824364533665947 / 900719925474099200 * 100"]
    py_round_within [where k = 483 and n = 1 and x = "87040721376152067 / 180143985094819840 * 100"]
  by simp_all

text \<open>
  Claim C5, as stated, fails on both halves. An unknown vehicle type does not make the
  call succeed whatever the other fields are: with an accident history of \<open>2 ^ 1024\<close>,
  every other categorical field in its table, the call fails. And the failure returned for
  an unknown road surface carries no error of its own: it is the same result as the
  failure returned for valid conditions whose accident history overflows.
\<close>

theorem unknown_enum_counterexample:
  "unknown_key (Some ''Tractor'') w_vehicle_type
   \<and> \<not> some_exact_field_unknown
        (api_defaults\<lparr>vehicle_type := Some ''Tractor'', accident_history := Some (2 ^ 1024)\<rparr>)
   \<and> predict_accident_risk cpython_runtime ''Bangalore''
        (api_defaults\<lparr>vehicle_type := Some ''Tractor'', accident_history := Some (2 ^ 1024)\<rparr>)
       = Failure ''Prediction calculation failed'' ''Bangalore''
   \<and> some_exact_field_unknown (api_defaults\<lparr>road_surface := Some ''Oily''\<rparr>)
   \<and> valid_conditions (api_defaults\<lparr>accident_history := Some (2 ^ 1024)\<rparr>)
   \<and> predict_accident_risk cpython_runtime ''Bangalore''
        (api_defaults\<lparr>road_surface := Some ''Oily''\<rparr>)
       = predict_accident_risk cpython_runtime ''Bangalore''
           (api_defaults\<lparr>accident_history := Some (2 ^ 1024)\<rparr>)"
proof -
  have u: "unknown_key (Some ''Tractor'') w_vehicle_type"
    by (simp add: unknown_key_def unknown_tractor)
  have a: "predict_accident_risk cpython_runtime ''Bangalore''
        (api_defaults\<lparr>vehicle_type := Some ''Tractor'', accident_history := Some (2 ^ 1024)\<rparr>)
       = Failure ''Prediction calculation failed'' ''Bangalore''"
    using total_risk_overflow [OF overflow_tractor_huge, of "''Bangalore''"] predict_Inl by blast
  have b: "predict_accident_risk cpython_runtime ''Bangalore''
        (api_defaults\<lparr>road_surface := Some ''Oily''\<rparr>)
       = Failure ''Prediction calculation failed'' ''Bangalore''"
    using total_risk_unknown [OF unknown_oily, of "''Bangalore''"] predict_Inl by blast
  have c: "predict_accident_risk cpython_runtime ''Bangalore''
        (api_defaults\<lparr>accident_history := Some (2 ^ 1024)\<rparr>)
       = Failure ''Prediction calculation failed'' ''Bangalore''"
    using total_risk_huge_history by (rule predict_Inl)
  show ?thesis
    using u known_tractor_huge a unknown_oily valid_huge_history unfolding b c by blast
qed

text \<open>
  Claim C5, amended. The code has no \<open>InvalidCondition\<close> error. When one of the thirteen
  categorical fields looked up with \<open>[...]\<close> holds a value outside its table, the call
  returns the failure result with the message \<open>Prediction calculation failed\<close>, the one it
  returns for every exception of the computation, an integer outside the range of a double
  included; otherwise it returns a result. An unknown vehicle type or weather is scored
  with the neutral weight 0.3 in place of the weight of its table: the total risk is the
  total for a car, weight 0.2, respectively for clear weather, weight 0.1, with that
  weight replaced by 0.3, and the call succeeds with the risk score of this total.
\<close>

theorem unknown_enum_handling:
  "(some_exact_field_unknown c \<or> \<not> in_float_range c \<longrightarrow>
      predict_accident_risk rt l c = Failure ''Prediction calculation failed'' l)
   \<and> (\<not> some_exact_field_unknown c \<and> in_float_range c \<longrightarrow>
        (\<exists>r. predict_accident_risk rt l c = Success r))
   \<and> (unknown_key (Some v) w_vehicle_type
        \<and> total_risk l (c\<lparr>vehicle_type := Some ''Car''\<rparr>) = Inr t0 \<longrightarrow>
        total_risk l (c\<lparr>vehicle_type := Some v\<rparr>) = Inr (t0 - 0.2 + 0.3)
        \<and> (\<exists>r. predict_accident_risk rt l (c\<lparr>vehicle_type := Some v\<rparr>) = Success r
              \<and> risk_score r = py_round (final_risk rt
                    (generate_seed rt l (c\<lparr>vehicle_type := Some v\<rparr>)) (t0 - 0.2 + 0.3) * 100) 1))
   \<and> (unknown_key (Some w) w_weather
        \<and> total_risk l (c\<lparr>weather := Some ''Clear''\<rparr>) = Inr t1 \<longrightarrow>
        total_risk l (c\<lparr>weather := Some w\<rparr>) = Inr (t1 - 0.1 + 0.3)
        \<and> (\<exists>r. predict_accident_risk rt l (c\<lparr>weather := Some w\<rparr>) = Success r
              \<and> risk_score r = py_round (final_risk rt
                    (generate_seed rt l (c\<lparr>weather := Some w\<rparr>)) (t1 - 0.1 + 0.3) * 100) 1))"
proof -
  have f: "predict_accident_risk rt l c = Failure ''Prediction calculation failed'' l"
    if "some_exact_field_unknown c \<or> \<not> in_float_range c"
    using that total_risk_unknown [of c l] total_risk_overflow [of c l] predict_Inl by blast
  have s: "\<exists>r. predict_accident_risk rt l c = Success r"
    if "\<not> some_exact_field_unknown c \<and> in_float_range c"
    using that total_risk_known [of c l] predict_Inr by blast
  have v: "total_risk l (c\<lparr>vehicle_type := Some v\<rparr>) = Inr (t0 - 0.2 + 0.3)
        \<and> (\<exists>r. predict_accident_risk rt l (c\<lparr>vehicle_type := Some v\<rparr>) = Success r
              \<and> risk_score r = py_round (final_risk rt
                    (generate_seed rt l (c\<lparr>vehicle_type := Some v\<rparr>)) (t0 - 0.2 + 0.3) * 100) 1)"
    if "unknown_key (Some v) w_vehicle_type
        \<and> total_risk l (c\<lparr>vehicle_type := Some ''Car''\<rparr>) = Inr t0"
  proof -
    have m: "map_of w_vehicle_type v = None" using that by (simp add: unknown_key_def)
    have t: "total_risk l (c\<lparr>vehicle_type := Some v\<rparr>) = Inr (t0 - 0.2 + 0.3)"
      using m that by (intro vehicle_term_of_total) simp_all
    show ?thesis using t predict_Inr [OF t, of rt] by blast
  qed
  have w: "total_risk l (c\<lparr>weather := Some w\<rparr>) = Inr (t1 - 0.1 + 0.3)
        \<and> (\<exists>r. predict_accident_risk rt l (c\<lparr>weather := Some w\<rparr>) = Success r
              \<and> risk_score r = py_round (final_risk rt
                    (generate_seed rt l (c\<lparr>weather := Some w\<rparr>)) (t1 - 0.1 + 0.3) * 100) 1)"
    if "unknown_key (Some w) w_weather
        \<and> total_risk l (c\<lparr>weather := Some ''Clear''\<rparr>) = Inr t1"
  proof -
    have m: "map_of w_weather w = None" using that by (simp add: unknown_key_def)
    have t: "total_risk l (c\<lparr>weather := Some w\<rparr>) = Inr (t1 - 0.1 + 0.3)"
      using m that by (intro weather_term_of_total) simp_all
    show ?thesis using t predict_Inr [OF t, of rt] by blast
  qed
  show ?thesis using f s v w by blast
qed

text \<open>
  At Bangalore with the caller's defaults: the vehicle type \<open>Tractor\<close> raises the total from
  3.5 to 3.6 and the call returns the risk score 45.7; the weather \<open>Tornado\<close>, which is in
  neither the table nor the enumerated domain, raises the total to 3.7 and the call returns
  the risk score 48.3; the road surface \<open>Oily\<close> makes the call fail.
\<close>

theorem unknown_enum_handling_witness:
  "unknown_key (Some ''Tractor'') w_vehicle_type
   \<and> total_risk ''Bangalore'' (api_defaults\<lparr>vehicle_type := Some ''Car''\<rparr>) = Inr 3.5
   \<and> total_risk ''Bangalore'' (api_defaults\<lparr>vehicle_type := Some ''Tractor''\<rparr>) = Inr 3.6
   \<and> (\<exists>r. predict_accident_risk cpython_runtime ''Bangalore''
              (api_defaults\<lparr>vehicle_type := Some ''Tractor''\<rparr>) = Success r
          \<and> risk_score r = 45.7)
   \<and> unknown_key (Some ''Tornado'') w_weather
   \<and> ''Tornado'' \<notin> set [''Clear'', ''Rainy'', ''Foggy'', ''Snowy'', ''Stormy'', ''Hazy'']
   \<and> total_risk ''Bangalore'' (api_defaults\<lparr>weather := Some ''Clear''\<rparr>) = Inr 3.5
   \<and> total_risk ''Bangalore'' (api_defaults\<lparr>weather := Some ''Tornado''\<rparr>) = Inr 3.7
   \<and> (\<exists>r. predict_accident_risk cpython_runtime ''Bangalore''
              (api_defaults\<lparr>weather := Some ''Tornado''\<rparr>) = Success r
          \<and> risk_score r = 48.3)
   \<and> some_exact_field_unknown (api_defaults\<lparr>road_surface := Some ''Oily''\<rparr>)
   \<and> predict_accident_risk cpython_runtime ''Bangalore''
        (api_defaults\<lparr>road_surface := Some ''Oily''\<rparr>)
      = Failure ''Prediction calculation failed'' ''Bangalore''"
proof -
  have u1: "unknown_key (Some ''Tractor'') w_vehicle_type"
    by (simp add: unknown_key_def unknown_tractor)
  have u2: "unknown_key (Some ''Tornado'') w_weather"
    by (simp add: unknown_key_def unknown_tornado)
  have d: "''Tornado'' \<notin> set [''Clear'', ''Rainy'', ''Foggy'', ''Snowy'', ''Stormy'', ''Hazy'']"
    by simp
  have c1: "total_risk ''Bangalore'' (api_defaults\<lparr>vehicle_type := Some ''Car''\<rparr>) = Inr 3.5"
    unfolding car_clear_defaults by (rule total_risk_bangalore)
  have c2: "total_risk ''Bangalore'' (api_defaults\<lparr>weather := Some ''Clear''\<rparr>) = Inr 3.5"
    unfolding car_clear_defaults by (rule total_risk_bangalore)
  have e1: "(3.5::real) - 0.2 + 0.3 = 3.6" by simp
  have e2: "(3.5::real) - 0.1 + 0.3 = 3.7" by simp
  have a: "total_risk ''Bangalore'' (api_defaults\<lparr>vehicle_type := Some ''Tractor''\<rparr>) = Inr 3.6
     \<and> (\<exists>r. predict_accident_risk cpython_runtime ''Bangalore''
              (api_defaults\<lparr>vehicle_type := Some ''Tractor''\<rparr>) = Success r
          \<and> risk_score r = 45.7)"
    using u1 c1 unknown_enum_handling [where c = api_defaults and v = "''Tractor''"
        and rt = cpython_runtime and l = "''Bangalore''" and ?t0.0 = "3.5"]
    unfolding e1 seed_tractor final_risk_tractor rounded_unknown by blast
  have b: "total_risk ''Bangalore'' (api_defaults\<lparr>weather := Some ''Tornado''\<rparr>) = Inr 3.7
     \<and> (\<exists>r. predict_accident_risk cpython_runtime ''Bangalore''
              (api_defaults\<lparr>weather := Some ''Tornado''\<rparr>) = Success r
          \<and> risk_score r = 48.3)"
    using u2 c2 unknown_enum_handling [where c = api_defaults and w = "''Tornado''"
        and rt = cpython_runtime and l = "''Bangalore''" and ?t1.0 = "3.5"]
    unfolding e2 seed_tornado final_risk_tornado rounded_unknown by blast
  have o: "predict_accident_risk cpython_runtime ''Bangalore''
        (api_defaults\<lparr>road_surface := Some ''Oily''\<rparr>)
      = Failure ''Prediction calculation failed'' ''Bangalore''"
    using unknown_oily unknown_enum_handling
      [where c = "api_defaults\<lparr>road_surface := Some ''Oily''\<rparr>"
        and rt = cpython_runtime and l = "''Bangalore''"]
    by blast
  show ?thesis using u1 u2 d c1 c2 a b unknown_oily o by blast
qed

section \<open>The sum of the returned probabilities\<close>

lemma round_half_even_abs: "\<bar>of_int (round_half_even y) - y\<bar> \<le> 1 / 2"
  using round_half_even_lower [of y] round_half_even_upper [of y] by linarith

lemma rounded_sum:
  assumes "pl + pm + ph = 1"
  shows "\<bar>py_round pl 3 + py_round pm 3 + py_round ph 3 - 1\<bar> \<le> 0.001"
proof -
  define A where "A = round_half_even (pl * 1000)"
  define B where "B = round_half_even (pm * 1000)"
  define C where "C = round_half_even (ph * 1000)"
  have a: "\<bar>of_int A - pl * 1000\<bar> \<le> 1 / 2"
    unfolding A_def by (rule round_half_even_abs)
  have b: "\<bar>of_int B - pm * 1000\<bar> \<le> 1 / 2"
    unfolding B_def by (rule round_half_even_abs)
  have c: "\<bar>of_int C - ph * 1000\<bar> \<le> 1 / 2"
    unfolding C_def by (rule round_half_even_abs)
  define k where "k = A + B + C - 1000"
  have "pl * 1000 + pm * 1000 + ph * 1000 = 1000"
    using assms by linarith
  then have s: "real_of_int k
      = (of_int A - pl * 1000) + (of_int B - pm * 1000) + (of_int C - ph * 1000)"
    unfolding k_def by simp
  have r: "real_of_int k < real_of_int 2" "real_of_int (- 2) < real_of_int k"
    using a b c s by linarith+
  have "k < 2" "- 2 < k"
    using r by (simp_all only: of_int_less_iff)
  then have "k \<le> 1" "- 1 \<le> k" by linarith+
  then have "real_of_int k \<le> real_of_int 1" "real_of_int (- 1) \<le> real_of_int k"
    by (simp_all only: of_int_le_iff)
  then have m: "\<bar>real_of_int k\<bar> \<le> 1" by simp
  have e: "py_round pl 3 + py_round pm 3 + py_round ph 3 - 1 = real_of_int k / 1000"
    unfolding py_round_def A_def B_def C_def k_def by simp
  have t: "(0.001::real) = 1 / 1000" by simp
  show ?thesis unfolding t using e m by linarith
qed

lemma returned_probabilities_sum:
  assumes "predict_accident_risk rt l c = Success r"
  shows "\<bar>low (probs r) + medium (probs r) + high (probs r) - 1\<bar> \<le> 0.001"
proof -
  obtain t where t: "total_risk l c = Inr t"
    using predict_Success_total [OF assms] by blast
  have p: "(low (probs r), medium (probs r), high (probs r))
         = (let pd = probability_distribution rt (generate_seed rt l c) (severity_code r)
                       (final_risk rt (generate_seed rt l c) t)
            in (py_round (fst pd) 3, py_round (fst (snd pd)) 3, py_round (snd (snd pd)) 3))"
    using predict_Inr [OF t, of rt] assms by auto
  obtain pl pm ph where d: "probability_distribution rt (generate_seed rt l c) (severity_code r)
                       (final_risk rt (generate_seed rt l c) t) = (pl, pm, ph)"
    by (metis prod_cases3)
  have one: "pl + pm + ph = 1" using d by (rule probability_distribution_sum)
  have e: "low (probs r) = py_round pl 3" "medium (probs r) = py_round pm 3"
    "high (probs r) = py_round ph 3"
    using p unfolding d Let_def by simp_all
  show ?thesis unfolding e by (rule rounded_sum [OF one])
qed

text \<open>
  Claim C3, as stated, fails: the three probabilities are rounded to three decimals one by
  one, after the normalisation. On Bangalore with the conditions of an empty request the
  call returns 0.168, 0.706 and 0.127, whose sum is 1.001.
\<close>

theorem probabilities_sum_counterexample:
  "valid_conditions api_defaults
   \<and> predict_accident_risk cpython_runtime ''Bangalore'' api_defaults = Success bangalore_assessment
   \<and> low (probs bangalore_assessment) + medium (probs bangalore_assessment)
       + high (probs bangalore_assessment) = 1.001
   \<and> \<not> \<bar>low (probs bangalore_assessment) + medium (probs bangalore_assessment)
          + high (probs bangalore_assessment) - 1\<bar> \<le> 1 / 10 ^ 6"
  using valid_api_defaults predict_bangalore_assessment
  by (simp add: bangalore_assessment_def)

text \<open>
  Claim C3, amended. For valid conditions whose accident history and speed excess are
  below \<open>2 ^ 1024 - 2 ^ 970\<close> the call returns a result, and the three probabilities of
  every result the call returns sum to 1.0 within a tolerance of 0.0015, three roundings
  of at most 0.0005 each. Over the reals the three rounded values are within 0.001 of 1;
  the wider tolerance leaves room for the error of the floating-point sum.
\<close>

theorem probabilities_sum_rounded:
  "(valid_conditions c \<and> in_float_range c \<longrightarrow> (\<exists>r. predict_accident_risk rt l c = Success r))
   \<and> (\<forall>r. predict_accident_risk rt l c = Success r \<longrightarrow>
         \<bar>low (probs r) + medium (probs r) + high (probs r) - 1\<bar> \<le> 0.0015)"
proof -
  have b: "\<bar>low (probs r) + medium (probs r) + high (probs r) - 1\<bar> \<le> 0.0015"
    if "predict_accident_risk rt l c = Success r" for r
    using returned_probabilities_sum [OF that] by simp
  show ?thesis using predict_valid_succeeds [of c rt l] b by blast
qed

theorem probabilities_sum_rounded_witness:
  "valid_conditions api_defaults \<and> in_float_range api_defaults
   \<and> predict_accident_risk cpython_runtime ''Bangalore'' api_defaults = Success bangalore_assessment
   \<and> low (probs bangalore_assessment) + medium (probs bangalore_assessment)
       + high (probs bangalore_assessment) = 1.001
   \<and> \<bar>low (probs bangalore_assessment) + medium (probs bangalore_assessment)
        + high (probs bangalore_assessment) - 1\<bar> \<le> 0.0015"
  using valid_api_defaults in_float_range_api_defaults predict_bangalore_assessment
    probabilities_sum_rounded [of api_defaults cpython_runtime "''Bangalore''"]
  by (simp add: bangalore_assessment_def)

section \<open>Severity and colour\<close>

text \<open>
  Claim C4. Severity is a threshold function of the risk after the jitter, and the colour
  follows the severity. Whenever a call succeeds, the accumulated risk \<open>t\<close> exists and, with
  \<open>fr\<close> the clamped product of the normalised risk and the jitter factor: if \<open>fr < 0.3\<close> the
  severity is Low (code 0, label ``Low Risk'') and the colour is \<open>#28a745\<close>; if
  \<open>0.3 \<le> fr < 0.6\<close> the severity is Medium (code 1) and the colour is \<open>#ffc107\<close>; otherwise the
  severity is High (code 2) and the colour is \<open>#dc3545\<close>.
\<close>

theorem severity_thresholds:
  assumes "predict_accident_risk rt l c = Success r"
  shows "\<exists>t. total_risk l c = Inr t \<and>
     (let fr = final_risk rt (generate_seed rt l c) t in
        (fr < 0.3 \<longrightarrow>
           fst (severity_of fr) = ''Low'' \<and> severity_code r = 0
           \<and> predicted_severity r = ''Low Risk'' \<and> color r = ''#28a745'')
      \<and> (0.3 \<le> fr \<and> fr < 0.6 \<longrightarrow>
           fst (severity_of fr) = ''Medium'' \<and> severity_code r = 1
           \<and> predicted_severity r = ''Medium Risk'' \<and> color r = ''#ffc107'')
      \<and> (0.6 \<le> fr \<longrightarrow>
           fst (severity_of fr) = ''High'' \<and> severity_code r = 2
           \<and> predicted_severity r = ''High Risk'' \<and> color r = ''#dc3545''))"
proof -
  obtain t where t: "total_risk l c = Inr t"
    using predict_Success_total [OF assms] by blast
  define fr where "fr = final_risk rt (generate_seed rt l c) t"
  have f: "(predicted_severity r, severity_code r, color r)
         = (snd (snd (snd (severity_of fr))), fst (snd (severity_of fr)),
            fst (snd (snd (severity_of fr))))"
    using predict_Inr [OF t, of rt] assms unfolding fr_def by auto
  have low: "severity_of fr = (''Low'', 0, ''#28a745'', ''Low Risk'')" if "fr < 0.3"
    using that by (simp add: severity_of_def)
  have med: "severity_of fr = (''Medium'', 1, ''#ffc107'', ''Medium Risk'')"
    if "0.3 \<le> fr" "fr < 0.6"
    using that by (simp add: severity_of_def)
  have high: "severity_of fr = (''High'', 2, ''#dc3545'', ''High Risk'')" if "0.6 \<le> fr"
    using that by (simp add: severity_of_def)
  have "(fr < 0.3 \<longrightarrow>
           fst (severity_of fr) = ''Low'' \<and> severity_code r = 0
           \<and> predicted_severity r = ''Low Risk'' \<and> color r = ''#28a745'')
      \<and> (0.3 \<le> fr \<and> fr < 0.6 \<longrightarrow>
           fst (severity_of fr) = ''Medium'' \<and> severity_code r = 1
           \<and> predicted_severity r = ''Medium Risk'' \<and> color r = ''#ffc107'')
      \<and> (0.6 \<le> fr \<longrightarrow>
           fst (severity_of fr) = ''High'' \<and> severity_code r = 2
           \<and> predicted_severity r = ''High Risk'' \<and> color r = ''#dc3545'')"
    using f low med high by (intro conjI impI; (elim conjE)?; simp)
  then show ?thesis using t unfolding fr_def Let_def by blast
qed

text \<open>
  The call at Bangalore with the caller's defaults: the risk after the jitter lies between
  0.3 and 0.6, and the result is Medium with colour \<open>#ffc107\<close>.
\<close>

theorem severity_thresholds_witness:
  "predict_accident_risk cpython_runtime ''Bangalore'' api_defaults = Success bangalore_assessment
   \<and> total_risk ''Bangalore'' api_defaults = Inr 3.5
   \<and> 0.3 \<le> final_risk cpython_runtime 0x09368f57 3.5
   \<and> final_risk cpython_runtime 0x09368f57 3.5 < 0.6
   \<and> severity_code bangalore_assessment = 1
   \<and> predicted_severity bangalore_assessment = ''Medium Risk''
   \<and> color bangalore_assessment = ''#ffc107''"
proof -
  have fr: "0.3 \<le> final_risk cpython_runtime 0x09368f57 3.5
      \<and> final_risk cpython_runtime 0x09368f57 3.5 < 0.6"
    unfolding final_risk_bangalore by simp
  obtain t where t: "total_risk ''Bangalore'' api_defaults = Inr t"
    and s: "0.3 \<le> final_risk cpython_runtime
                 (generate_seed cpython_runtime ''Bangalore'' api_defaults) t
          \<and> final_risk cpython_runtime
                 (generate_seed cpython_runtime ''Bangalore'' api_defaults) t < 0.6
        \<longrightarrow> severity_code bangalore_assessment = 1
          \<and> predicted_severity bangalore_assessment = ''Medium Risk''
          \<and> color bangalore_assessment = ''#ffc107''"
    using severity_thresholds [OF predict_bangalore_assessment] unfolding Let_def by blast
  have "t = 3.5" using t unfolding total_risk_bangalore by simp
  with s fr have "severity_code bangalore_assessment = 1
      \<and> predicted_severity bangalore_assessment = ''Medium Risk''
      \<and> color bangalore_assessment = ''#ffc107''"
    unfolding seed_bangalore by blast
  then show ?thesis using predict_bangalore_assessment total_risk_bangalore fr by blast
qed

section \<open>Monotonicity in the accident history\<close>

lemma history_term_of_total:
  assumes "total_risk l (c\<lparr>accident_history := Some h1\<rparr>) = Inr t1"
    and "\<bar>h2\<bar> < float_int_bound"
  shows "total_risk l (c\<lparr>accident_history := Some h2\<rparr>)
         = Inr (t1 + of_int (h2 - h1) * w_accident_history)"
proof -
  obtain base where b: "get_location_risk l = Inr base"
    using get_location_risk_range [of l] by blast
  define ws where "ws = butlast (contributions c)"
  have c: "contributions (c\<lparr>accident_history := Some h\<rparr>)
         = ws @ [int_times_float h w_accident_history]" for h
    unfolding ws_def contributions_def by (simp add: cond_get_def)
  obtain x where x: "int_times_float h1 w_accident_history = Inr x"
  proof (cases "int_times_float h1 w_accident_history")
    case (Inl e)
    then have "Inl e \<in> set (ws @ [int_times_float h1 w_accident_history])" by simp
    then obtain e' where
      "accumulate base (ws @ [int_times_float h1 w_accident_history]) = Inl e'"
      using accumulate_Inl by blast
    then show ?thesis using assms(1) unfolding total_risk_def b c by simp
  next
    case (Inr x)
    then show ?thesis using that by blast
  qed
  have x': "x = of_int h1 * w_accident_history"
    using int_times_float_Inr [OF x] by simp
  have "accumulate base (ws @ Inr x # []) = Inr t1"
    using assms(1) unfolding total_risk_def b c x by simp
  then have "accumulate base (ws @ Inr (of_int h2 * w_accident_history) # [])
      = Inr (t1 - x + of_int h2 * w_accident_history)"
    by (rule accumulate_replace)
  moreover have "t1 - x + of_int h2 * w_accident_history
      = t1 + of_int (h2 - h1) * w_accident_history"
    unfolding x' by (simp add: algebra_simps)
  ultimately show ?thesis
    unfolding total_risk_def b c int_times_float_fits [OF assms(2)] by simp
qed

lemma seed_ignores_history:
  "generate_seed rt l (c\<lparr>accident_history := h\<rparr>) = generate_seed rt l c"
  by (simp add: generate_seed_def)

lemma normalized_risk_mono: "t1 \<le> t2 \<Longrightarrow> normalized_risk t1 \<le> normalized_risk t2"
  unfolding normalized_risk_def by (intro min.mono max.mono divide_right_mono) simp_all

lemma final_risk_mono:
  assumes "normalized_risk t1 \<le> normalized_risk t2"
  shows "final_risk rt seed t1 \<le> final_risk rt seed t2"
proof -
  have "0 \<le> uniform rt seed 0 0.95 1.05"
    using uniform_range [of "0.95" "1.05" rt seed 0] by simp
  then have "normalized_risk t1 * uniform rt seed 0 0.95 1.05
      \<le> normalized_risk t2 * uniform rt seed 0 0.95 1.05"
    using assms by (rule mult_right_mono [rotated])
  then show ?thesis unfolding final_risk_def Let_def by (simp add: min_le_iff_disj)
qed

lemma defaults_no_history: "api_defaults\<lparr>accident_history := Some 0\<rparr> = api_defaults"
  by (simp add: api_defaults_def)

text \<open>
  Claim C9, as stated, fails when the larger accident history is an integer that no double
  holds: both inputs are valid, but \<open>accident_history * 0.1\<close> raises \<open>OverflowError\<close> and
  the second call returns the failure result, which has no risk score to compare.
\<close>

theorem history_monotone_counterexample:
  "valid_conditions (api_defaults\<lparr>accident_history := Some 0\<rparr>)
   \<and> valid_conditions (api_defaults\<lparr>accident_history := Some (2 ^ 1024)\<rparr>)
   \<and> (0::int) \<le> 2 ^ 1024
   \<and> predict_accident_risk cpython_runtime ''Bangalore''
        (api_defaults\<lparr>accident_history := Some 0\<rparr>) = Success bangalore_assessment
   \<and> predict_accident_risk cpython_runtime ''Bangalore''
        (api_defaults\<lparr>accident_history := Some (2 ^ 1024)\<rparr>)
       = Failure ''Prediction calculation failed'' ''Bangalore''"
proof -
  have a: "valid_conditions (api_defaults\<lparr>accident_history := Some 0\<rparr>)"
    unfolding defaults_no_history by (rule valid_api_defaults)
  have b: "predict_accident_risk cpython_runtime ''Bangalore''
        (api_defaults\<lparr>accident_history := Some 0\<rparr>) = Success bangalore_assessment"
    unfolding defaults_no_history by (rule predict_bangalore_assessment)
  have c: "predict_accident_risk cpython_runtime ''Bangalore''
        (api_defaults\<lparr>accident_history := Some (2 ^ 1024)\<rparr>)
       = Failure ''Prediction calculation failed'' ''Bangalore''"
    using total_risk_huge_history by (rule predict_Inl)
  have d: "(0::int) \<le> 2 ^ 1024" by simp
  show ?thesis using a valid_huge_history d b c by blast
qed

text \<open>
  Claim C9, amended. Take two inputs that differ only in the accident history,
  \<open>h1 \<le> h2\<close>, the first one valid, the speed excess and \<open>h2\<close> below \<open>2 ^ 1024 - 2 ^ 970\<close>,
  the largest integers that convert to a double. Both calls return a result; the
  normalised risk before the jitter, \<open>min (max (total_risk / 8.0) 0.05) 0.95\<close>, of the first
  is at most that of the second; the two calls have the same seed, hence the same jitter
  draw; and the risk score returned for \<open>h1\<close> is at most the one returned for \<open>h2\<close>.
\<close>

theorem history_monotone:
  assumes "valid_conditions (c\<lparr>accident_history := Some h1\<rparr>)" and "h1 \<le> h2"
    and "in_float_range (c\<lparr>accident_history := Some h2\<rparr>)"
  shows "\<exists>t1 t2 r1 r2.
       total_risk l (c\<lparr>accident_history := Some h1\<rparr>) = Inr t1
     \<and> total_risk l (c\<lparr>accident_history := Some h2\<rparr>) = Inr t2
     \<and> normalized_risk t1 \<le> normalized_risk t2
     \<and> generate_seed rt l (c\<lparr>accident_history := Some h1\<rparr>)
         = generate_seed rt l (c\<lparr>accident_history := Some h2\<rparr>)
     \<and> predict_accident_risk rt l (c\<lparr>accident_history := Some h1\<rparr>) = Success r1
     \<and> predict_accident_risk rt l (c\<lparr>accident_history := Some h2\<rparr>) = Success r2
     \<and> risk_score r1 \<le> risk_score r2"
proof -
  let ?c1 = "c\<lparr>accident_history := Some h1\<rparr>" and ?c2 = "c\<lparr>accident_history := Some h2\<rparr>"
  have h1: "0 \<le> h1"
    using valid_history [OF assms(1)] by (simp add: cond_get_def)
  have h2: "\<bar>h2\<bar> < float_int_bound"
    using assms(3) by (simp add: in_float_range_def cond_get_def)
  have f: "in_float_range ?c1"
    using assms(2,3) h1 by (simp add: in_float_range_def cond_get_def)
  obtain t1 where t1: "total_risk l ?c1 = Inr t1"
    using total_risk_known [OF valid_known [OF assms(1)] f] by blast
  define t2 where "t2 = t1 + of_int (h2 - h1) * w_accident_history"
  have t2: "total_risk l ?c2 = Inr t2"
    unfolding t2_def using t1 h2 by (rule history_term_of_total)
  have "0 \<le> (of_int (h2 - h1) :: real) * w_accident_history"
    using assms(2) by (simp add: w_accident_history_def)
  then have le: "t1 \<le> t2" unfolding t2_def by simp
  have n: "normalized_risk t1 \<le> normalized_risk t2"
    using le by (rule normalized_risk_mono)
  have s: "generate_seed rt l ?c1 = generate_seed rt l ?c2"
    by (simp add: seed_ignores_history)
  obtain r1 where r1: "predict_accident_risk rt l ?c1 = Success r1"
    "risk_score r1 = py_round (final_risk rt (generate_seed rt l ?c1) t1 * 100) 1"
    using predict_Inr [OF t1, of rt] by blast
  obtain r2 where r2: "predict_accident_risk rt l ?c2 = Success r2"
    "risk_score r2 = py_round (final_risk rt (generate_seed rt l ?c2) t2 * 100) 1"
    using predict_Inr [OF t2, of rt] by blast
  have "final_risk rt (generate_seed rt l ?c1) t1 * 100
      \<le> final_risk rt (generate_seed rt l ?c2) t2 * 100"
    unfolding s using final_risk_mono [OF n, of rt "generate_seed rt l ?c2"] by simp
  then have "risk_score r1 \<le> risk_score r2"
    unfolding r1(2) r2(2) by (rule py_round_mono)
  then show ?thesis using t1 t2 n s r1(1) r2(1) by blast
qed

text \<open>
  At Bangalore with the caller's defaults, going from no previous accident to three does
  not lower the risk score of 44.5.
\<close>

theorem history_monotone_witness:
  "valid_conditions (api_defaults\<lparr>accident_history := Some 0\<rparr>) \<and> (0::int) \<le> 3
   \<and> in_float_range (api_defaults\<lparr>accident_history := Some 3\<rparr>)
   \<and> predict_accident_risk cpython_runtime ''Bangalore''
        (api_defaults\<lparr>accident_history := Some 0\<rparr>) = Success bangalore_assessment
   \<and> (\<exists>r2. predict_accident_risk cpython_runtime ''Bangalore''
               (api_defaults\<lparr>accident_history := Some 3\<rparr>) = Success r2
           \<and> 44.5 \<le> risk_score r2)"
proof -
  have v: "valid_conditions (api_defaults\<lparr>accident_history := Some 0\<rparr>)"
    unfolding defaults_no_history by (rule valid_api_defaults)
  have p: "predict_accident_risk cpython_runtime ''Bangalore''
        (api_defaults\<lparr>accident_history := Some 0\<rparr>) = Success bangalore_assessment"
    unfolding defaults_no_history by (rule predict_bangalore_assessment)
  have h: "(0::int) \<le> 3" by simp
  have f: "in_float_range (api_defaults\<lparr>accident_history := Some 3\<rparr>)"
    by (simp add: in_float_range_def api_defaults_def cond_get_def float_int_bound_def)
  obtain r1 r2 where
    "predict_accident_risk cpython_runtime ''Bangalore''
        (api_defaults\<lparr>accident_history := Some 0\<rparr>) = Success r1"
    and r2: "predict_accident_risk cpython_runtime ''Bangalore''
        (api_defaults\<lparr>accident_history := Some 3\<rparr>) = Success r2"
    and le: "risk_score r1 \<le> risk_score r2"
    using history_monotone [OF v h f, of "''Bangalore''" cpython_runtime] by blast
  then have "r1 = bangalore_assessment" using p by simp
  then have "44.5 \<le> risk_score r2" using le by (simp add: bangalore_assessment_def)
  then show ?thesis using v h f p r2 by blast
qed

section \<open>The sign of the returned probabilities\<close>

text \<open>
  In the branch for high severity \<open>prob_high\<close> is the risk after the jitter plus a draw
  from \<open>[0.1, 0.2]\<close>, and nothing bounds it by 1. A total risk of 7.6 or more gives a
  normalised risk of 0.95 and a risk after the jitter of at least 0.9025, whatever the
  draw: then \<open>prob_high\<close> is at least 1.0025 and the two other probabilities, which share
  \<open>1 - prob_high\<close>, are negative.
\<close>

lemma valid_reckless: "valid_conditions reckless_conditions"
  by (simp add: valid_conditions_def in_domain_def non_negative_def reckless_conditions_def)

lemma contributions_reckless:
  "contributions reckless_conditions =
     map Inr [0.7, 0.6, 0.7, 0.8, 0.6, 1.0, 0.5, 0.8, 0.7, 0.6, 0.5, 0.7, 0.4, 0.6, 0.5, 0.5,
              0.7, 1.0, 0.8, 0.2]"
  by (simp add: contributions_def reckless_conditions_def cond_get_def dict_get_def dict_index_def
      weight_tables calculate_age_risk_def calculate_experience_risk_def calculate_speed_risk_def
      int_times_float_def float_int_bound_def)

lemma total_risk_reckless:
  "\<exists>t. total_risk l reckless_conditions = Inr t \<and> 7.6 \<le> t"
proof -
  obtain base where b: "get_location_risk l = Inr base" "0.4 \<le> base"
    using get_location_risk_range [of l] by blast
  have "total_risk l reckless_conditions = Inr (base + 12.9)"
    unfolding total_risk_def contributions_reckless by (simp add: b(1))
  then show ?thesis using b(2) by simp
qed

lemma normalized_risk_saturated: "7.6 \<le> t \<Longrightarrow> normalized_risk t = 0.95"
  unfolding normalized_risk_def by (simp add: min_def max_def)

lemma final_risk_saturated:
  assumes "7.6 \<le> t"
  shows "0.9025 \<le> final_risk rt seed t \<and> final_risk rt seed t \<le> 0.95"
proof -
  have u: "0.95 \<le> uniform rt seed 0 0.95 1.05"
    using uniform_range [of "0.95" "1.05" rt seed 0] by simp
  have "final_risk rt seed t = min (0.95 * uniform rt seed 0 0.95 1.05) 0.95"
    unfolding final_risk_def Let_def normalized_risk_saturated [OF assms] ..
  then show ?thesis using u by (simp add: min_def)
qed

lemma high_branch_distribution:
  assumes "0.9025 \<le> fr"
  shows "fst (probability_distribution rt seed 2 fr) \<le> - 0.00075
     \<and> fst (snd (probability_distribution rt seed 2 fr)) \<le> - 0.001
     \<and> 1.0025 \<le> snd (snd (probability_distribution rt seed 2 fr))"
proof -
  define u1 where "u1 = uniform rt seed 1 0.1 0.2"
  define u2 where "u2 = uniform rt seed 2 0.4 0.7"
  define ph where "ph = fr + u1"
  have r1: "0.1 \<le> u1" unfolding u1_def using uniform_range [of "0.1" "0.2" rt seed 1] by simp
  have r2: "0.4 \<le> u2" "u2 \<le> 0.7"
    unfolding u2_def using uniform_range [of "0.4" "0.7" rt seed 2] by simp_all
  have h: "1.0025 \<le> ph" unfolding ph_def using assms r1 by simp
  have pd: "probability_distribution rt seed 2 fr = (1 - ph - (1 - ph) * u2, (1 - ph) * u2, ph)"
    unfolding probability_distribution_def Let_def ph_def u1_def u2_def by simp
  have n: "1 - ph \<le> - 0.0025" using h by simp
  have "(1 - ph) * u2 \<le> (1 - ph) * 0.4"
    using r2(1) n by (intro mult_left_mono_neg) simp_all
  then have m: "(1 - ph) * u2 \<le> - 0.001" using n by simp
  have "(1 - ph) * (1 - u2) \<le> (1 - ph) * 0.3"
    using r2(2) n by (intro mult_left_mono_neg) simp_all
  then have "(1 - ph) * (1 - u2) \<le> - 0.00075" using n by simp
  then have l: "1 - ph - (1 - ph) * u2 \<le> - 0.00075" by (simp add: algebra_simps)
  show ?thesis unfolding pd using l m h by simp
qed

lemma py_round_small_negative:
  "py_round (- 0.00075) 3 = - 0.001" "py_round (- 0.001) 3 = - 0.001"
  "py_round 1.0025 3 = 1.002"
proof -
  show "py_round (- 0.00075) 3 = - 0.001"
    using py_round_within [where k = "- 1" and x = "- 0.00075" and n = 3] by simp
  show "py_round (- 0.001) 3 = - 0.001"
    using py_round_within [where k = "- 1" and x = "- 0.001" and n = 3] by simp
  show "py_round 1.0025 3 = 1.002"
    unfolding py_round_def round_half_even_def Let_def by simp
qed

text \<open>
  Claim C10. The claim is that for every valid input and every draw each of the three
  returned probabilities is non-negative. The code does not have this property: for the
  valid conditions \<open>reckless_conditions\<close>, at every location and for every behaviour of the
  hash and of the generator, the call succeeds with high severity and returns a low and a
  medium probability of at most -0.001 and a high probability of at least 1.002.
\<close>

theorem high_branch_negative_probabilities:
  "valid_conditions reckless_conditions
   \<and> (\<exists>r. predict_accident_risk rt l reckless_conditions = Success r
          \<and> severity_code r = 2
          \<and> low (probs r) \<le> - 0.001 \<and> medium (probs r) \<le> - 0.001
          \<and> 1.002 \<le> high (probs r))"
proof -
  obtain t where t: "total_risk l reckless_conditions = Inr t" "7.6 \<le> t"
    using total_risk_reckless [of l] by blast
  define fr where "fr = final_risk rt (generate_seed rt l reckless_conditions) t"
  have f: "0.9025 \<le> fr" "fr \<le> 0.95"
    unfolding fr_def using final_risk_saturated [OF t(2)] by simp_all
  have s: "severity_of fr = (''High'', 2, ''#dc3545'', ''High Risk'')"
    using f(1) by (simp add: severity_of_def)
  obtain r where r: "predict_accident_risk rt l reckless_conditions = Success r"
    and c: "severity_code r = fst (snd (severity_of fr))"
    and p: "(low (probs r), medium (probs r), high (probs r))
         = (let pd = probability_distribution rt (generate_seed rt l reckless_conditions)
                       (severity_code r) fr
            in (py_round (fst pd) 3, py_round (fst (snd pd)) 3, py_round (snd (snd pd)) 3))"
    using predict_Inr [OF t(1), of rt] unfolding fr_def by auto
  have c2: "severity_code r = 2" unfolding c s by simp
  define pd where
    "pd = probability_distribution rt (generate_seed rt l reckless_conditions) 2 fr"
  have d: "fst pd \<le> - 0.00075" "fst (snd pd) \<le> - 0.001" "1.0025 \<le> snd (snd pd)"
    unfolding pd_def using high_branch_distribution [OF f(1)] by simp_all
  have e: "low (probs r) = py_round (fst pd) 3" "medium (probs r) = py_round (fst (snd pd)) 3"
    "high (probs r) = py_round (snd (snd pd)) 3"
    using p unfolding c2 pd_def Let_def by simp_all
  have "low (probs r) \<le> py_round (- 0.00075) 3" unfolding e using d(1) by (rule py_round_mono)
  then have lo: "low (probs r) \<le> - 0.001" unfolding py_round_small_negative .
  have "medium (probs r) \<le> py_round (- 0.001) 3" unfolding e using d(2) by (rule py_round_mono)
  then have me: "medium (probs r) \<le> - 0.001" unfolding py_round_small_negative .
  have "py_round 1.0025 3 \<le> high (probs r)" unfolding e using d(3) by (rule py_round_mono)
  then have hi: "1.002 \<le> high (probs r)" unfolding py_round_small_negative .
  show ?thesis using valid_reckless r c2 lo me hi by blast
qed

section \<open>The scope of the seed\<close>















end
